theory Spec2Isabelle
  imports Main "HOL-Library.AList" "HOL-Library.Sublist"
begin

section \<open>Values\<close>

text \<open>
  A Python float: a finite one, given by a mantissa and an exponent, or one of the three
  non-finite values. All NaNs are one value here.
\<close>

datatype pyfloat = Finite int int | NaN | PosInf | NegInf

text \<open>
  A decoded JSON document, as \<^verbatim>\<open>response.json()\<close> returns it and as
  \<^verbatim>\<open>json.dumps\<close> takes it. A Python dict is an association list in insertion
  order; its keys are distinct.
\<close>

datatype json =
    JNull
  | JBool bool
  | JInt int
  | JFloat pyfloat
  | JStr string
  | JList "json list"
  | JDict "(string \<times> json) list"

text \<open>
  A value held in an argument mapping of a request: a binary stream (an instance of
  \<^verbatim>\<open>io.IOBase\<close>, named by its content) or a plain value, represented by the JSON
  value it serialises to.
\<close>

datatype pyval = Stream string | Plain json

type_synonym pydict = "(string \<times> pyval) list"

fun is_IOBase :: "pyval \<Rightarrow> bool" where
  "is_IOBase (Stream s) = True"
| "is_IOBase (Plain j) = False"

section \<open>Responses and exceptions\<close>

text \<open>
  The body of a response either decodes as JSON or does not; \<^verbatim>\<open>response.json()\<close>
  returns the decoded value in the first case and raises in the second.
\<close>

datatype content = NotJson string | Json json

record response =
  status_code :: nat
  content :: content

text \<open>
  The exceptions that reach the code. \<open>UrllibHTTPError\<close> is
  \<^verbatim>\<open>urllib.error.HTTPError\<close>, the class the module imports under the name
  \<^verbatim>\<open>HTTPError\<close> (line 16); \<open>RequestsHTTPError\<close> is
  \<^verbatim>\<open>requests.exceptions.HTTPError\<close>, the class \<^verbatim>\<open>raise_for_status\<close>
  raises. \<open>ConnectionError\<close> stands for whatever \<^verbatim>\<open>Session.send\<close> raises when no
  response arrives. \<open>RequestsJSONDecodeError\<close> is what \<^verbatim>\<open>response.json()\<close> raises
  on a body that is not JSON: a \<^verbatim>\<open>json.JSONDecodeError\<close>, hence a
  \<^verbatim>\<open>ValueError\<close>. \<open>ValidationError\<close> is what \<^verbatim>\<open>parse_obj_as\<close> raises.
\<close>

datatype exn =
    ConnectionError
  | RequestsHTTPError response
  | UrllibHTTPError
  | RequestsJSONDecodeError
  | EvidentlyServiceError json
  | ProjectNotFound
  | ValidationError
  | KeyError string
  | TypeError
  | AttributeError
  | AssertionError
  | ValueError string

text \<open>
  Modelled from the spec: the class of \<^verbatim>\<open>EvidentlyServiceError\<close>
  (\<^verbatim>\<open>evidently.ui.errors\<close>) is not among the sources. The spec's error taxonomy has
  ServiceError as a kind of its own, raised to the caller with the detail as its message, so it
  is no \<^verbatim>\<open>ValueError\<close> here.
\<close>

fun is_ValueError :: "exn \<Rightarrow> bool" where
  "is_ValueError RequestsJSONDecodeError = True"
| "is_ValueError ValidationError = True"
| "is_ValueError (ValueError m) = True"
| "is_ValueError e = False"

fun is_HTTPError :: "exn \<Rightarrow> bool" where
  "is_HTTPError UrllibHTTPError = True"
| "is_HTTPError e = False"

fun is_JSONDecodeError :: "exn \<Rightarrow> bool" where
  "is_JSONDecodeError RequestsJSONDecodeError = True"
| "is_JSONDecodeError e = False"

fun is_KeyError :: "exn \<Rightarrow> bool" where
  "is_KeyError (KeyError k) = True"
| "is_KeyError e = False"

fun is_AssertionError :: "exn \<Rightarrow> bool" where
  "is_AssertionError AssertionError = True"
| "is_AssertionError e = False"

fun is_AttributeError :: "exn \<Rightarrow> bool" where
  "is_AttributeError AttributeError = True"
| "is_AttributeError e = False"

text \<open>The attribute \<^verbatim>\<open>e.response\<close>: only the exception of
  \<^verbatim>\<open>raise_for_status\<close> carries a response.\<close>

fun exn_response :: "exn \<Rightarrow> response option" where
  "exn_response (RequestsHTTPError r) = Some r"
| "exn_response e = None"

definition response_json :: "response \<Rightarrow> exn + json" where
  "response_json r = (case content r of NotJson s \<Rightarrow> Inl RequestsJSONDecodeError | Json j \<Rightarrow> Inr j)"

text \<open>\<^verbatim>\<open>response.raise_for_status()\<close>: an error for the statuses 400 to 599.\<close>

definition raise_for_status :: "response \<Rightarrow> exn + unit" where
  "raise_for_status r =
     (if 400 \<le> status_code r \<and> status_code r < 600 then Inl (RequestsHTTPError r) else Inr ())"

text \<open>Python's subscript \<^verbatim>\<open>x[k]\<close> and membership test \<^verbatim>\<open>k in x\<close> with a
  string \<open>k\<close>, on a decoded JSON value.\<close>

fun py_getitem :: "json \<Rightarrow> string \<Rightarrow> exn + json" where
  "py_getitem (JDict kvs) k = (case map_of kvs k of None \<Rightarrow> Inl (KeyError k) | Some v \<Rightarrow> Inr v)"
| "py_getitem j k = Inl TypeError"

fun py_contains :: "string \<Rightarrow> json \<Rightarrow> exn + bool" where
  "py_contains k (JDict kvs) = Inr (k \<in> set (map fst kvs))"
| "py_contains k (JList xs) = Inr (JStr k \<in> set xs)"
| "py_contains k (JStr s) = Inr (sublist k s)"
| "py_contains k j = Inl TypeError"

section \<open>Requests\<close>

text \<open>The result of \<^verbatim>\<open>urllib.parse.urljoin(base, path)\<close>, left uninterpreted.\<close>

datatype url = Urljoin string string

text \<open>
  The text \<^verbatim>\<open>json.dumps\<close> writes, as the tree of its tokens. \<open>WNaN\<close>,
  \<open>WInfinity\<close> and \<open>WMinusInfinity\<close> are the tokens \<^verbatim>\<open>NaN\<close>,
  \<^verbatim>\<open>Infinity\<close> and \<^verbatim>\<open>-Infinity\<close>; \<open>WFloat\<close> is the literal of a
  finite float.
\<close>

datatype json_text =
    WNull
  | WTrue
  | WFalse
  | WInt int
  | WFloat int int
  | WNaN
  | WInfinity
  | WMinusInfinity
  | WString string
  | WArray "json_text list"
  | WObject "(string \<times> json_text) list"

datatype payload = NoData | JsonBytes json_text | FormFields pydict

record http_request =
  req_method :: string
  req_url :: url
  req_params :: "pydict option"
  req_data :: payload
  req_files :: "pydict option"
  req_headers :: pydict
  req_cookies :: pydict

definition Request ::
  "string \<Rightarrow> url \<Rightarrow> pydict option \<Rightarrow> payload \<Rightarrow> pydict option \<Rightarrow> pydict \<Rightarrow> pydict \<Rightarrow> http_request" where
  "Request method u params data files headers cookies =
     \<lparr>req_method = method, req_url = u, req_params = params, req_data = data,
      req_files = files, req_headers = headers, req_cookies = cookies\<rparr>"

text \<open>\<^verbatim>\<open>x or {}\<close> on the value of an optional mapping.\<close>

definition or_empty :: "pydict option \<Rightarrow> pydict" where
  "or_empty d = (case d of None \<Rightarrow> [] | Some x \<Rightarrow> x)"

text \<open>
  Modelled from the spec: the encoder, \<^verbatim>\<open>json.dumps\<close> with
  \<^verbatim>\<open>evidently.utils.NumpyEncoder\<close>, is not among the sources. Serialisation is to
  encode non-finite floats faithfully; the model follows what the documentation of
  \<^verbatim>\<open>allow_nan\<close> says: with \<^verbatim>\<open>allow_nan\<close> true the non-finite floats are
  written as \<^verbatim>\<open>NaN\<close>, \<^verbatim>\<open>Infinity\<close> and \<^verbatim>\<open>-Infinity\<close>, with
  \<^verbatim>\<open>allow_nan\<close> false they are a \<^verbatim>\<open>ValueError\<close>. \<open>json_loads\<close> is
  \<^verbatim>\<open>json.loads\<close> on such a text: it reads the three tokens as the floats they
  name.
\<close>

fun float_text :: "pyfloat \<Rightarrow> json_text" where
  "float_text (Finite m e) = WFloat m e"
| "float_text NaN = WNaN"
| "float_text PosInf = WInfinity"
| "float_text NegInf = WMinusInfinity"

fun json_write :: "json \<Rightarrow> json_text" where
  "json_write JNull = WNull"
| "json_write (JBool b) = (if b then WTrue else WFalse)"
| "json_write (JInt i) = WInt i"
| "json_write (JFloat f) = float_text f"
| "json_write (JStr s) = WString s"
| "json_write (JList xs) = WArray (map json_write xs)"
| "json_write (JDict kvs) = WObject (map (\<lambda>(k, v). (k, json_write v)) kvs)"

fun is_finite :: "pyfloat \<Rightarrow> bool" where
  "is_finite (Finite m e) = True"
| "is_finite f = False"

fun finite_floats :: "json \<Rightarrow> bool" where
  "finite_floats (JFloat f) = is_finite f"
| "finite_floats (JList xs) = list_all finite_floats xs"
| "finite_floats (JDict kvs) = list_all (\<lambda>(k, v). finite_floats v) kvs"
| "finite_floats j = True"

definition json_encode :: "bool \<Rightarrow> json \<Rightarrow> exn + json_text" where
  "json_encode allow_nan j =
     (if allow_nan \<or> finite_floats j then Inr (json_write j)
      else Inl (ValueError ''Out of range float values are not JSON compliant''))"

fun json_loads :: "json_text \<Rightarrow> json" where
  "json_loads WNull = JNull"
| "json_loads WTrue = JBool True"
| "json_loads WFalse = JBool False"
| "json_loads (WInt i) = JInt i"
| "json_loads (WFloat m e) = JFloat (Finite m e)"
| "json_loads WNaN = JFloat NaN"
| "json_loads WInfinity = JFloat PosInf"
| "json_loads WMinusInfinity = JFloat NegInf"
| "json_loads (WString s) = JStr s"
| "json_loads (WArray xs) = JList (map json_loads xs)"
| "json_loads (WObject kvs) = JDict (map (\<lambda>(k, v). (k, json_loads v)) kvs)"

text \<open>
  \<^verbatim>\<open>json.dumps(body, allow_nan=True, cls=NumpyEncoder).encode("utf8")\<close> (line 79): a
  plain value is represented by the JSON value it serialises as, a stream is not
  serialisable.
\<close>

fun dumps_items :: "pydict \<Rightarrow> exn + (string \<times> json) list" where
  "dumps_items [] = Inr []"
| "dumps_items ((k, Stream s) # kvs) = Inl TypeError"
| "dumps_items ((k, Plain j) # kvs) =
     (case dumps_items kvs of Inl e \<Rightarrow> Inl e | Inr r \<Rightarrow> Inr ((k, j) # r))"

definition json_dumps :: "pydict \<Rightarrow> exn + json_text" where
  "json_dumps body =
     (case dumps_items body of Inl e \<Rightarrow> Inl e | Inr r \<Rightarrow> json_encode True (JDict r))"

text \<open>
  The comprehension of line 76,
  \<^verbatim>\<open>{k: body.pop(k) for k in list(body.keys()) if isinstance(body[k], io.IOBase)}\<close>:
  a loop over the keys the body had at the start, which moves every stream out of the body
  into the files. The result is how the loop ended, the body that is left and the files.
\<close>

fun pop_files :: "string list \<Rightarrow> pydict \<Rightarrow> pydict \<Rightarrow> (exn + unit) \<times> pydict \<times> pydict" where
  "pop_files [] body files = (Inr (), body, files)"
| "pop_files (k # ks) body files =
     (case map_of body k of
        None \<Rightarrow> (Inl (KeyError k), body, files)
      | Some v \<Rightarrow>
          if is_IOBase v then pop_files ks (AList.delete k body) (AList.update k v files)
          else pop_files ks body files)"

text \<open>
  \<^verbatim>\<open>RemoteBase._prepare_request\<close> (lines 58 to 88), on the values of its arguments;
  \<open>base\<close> is what \<^verbatim>\<open>self.get_url()\<close> returns.
\<close>

definition RemoteBase_prepare_request ::
  "string \<Rightarrow> string \<Rightarrow> string \<Rightarrow> pydict option \<Rightarrow> pydict option \<Rightarrow> pydict option \<Rightarrow>
   pydict option \<Rightarrow> bool \<Rightarrow> exn + http_request" where
  "RemoteBase_prepare_request base path method query_params body cookies headers form_data =
     (let cookies' = or_empty cookies;
          headers' = or_empty headers
      in case body of
           None \<Rightarrow>
             Inr (Request method (Urljoin base path) query_params NoData None headers' cookies')
         | Some b \<Rightarrow>
             if form_data then
               (case pop_files (map fst b) b [] of
                  (Inl e, b', files) \<Rightarrow> Inl e
                | (Inr u, b', files) \<Rightarrow>
                    Inr (Request method (Urljoin base path) query_params (FormFields b')
                           (Some files) headers' cookies'))
             else
               (let headers'' =
                      AList.update ''Content-Type'' (Plain (JStr ''application/json'')) headers'
                in case json_dumps b of
                     Inl e \<Rightarrow> Inl e
                   | Inr j \<Rightarrow>
                       Inr (Request method (Urljoin base path) query_params (JsonBytes j)
                              None headers'' cookies')))"

section \<open>The argument mappings as objects\<close>

text \<open>
  \<^verbatim>\<open>_prepare_request\<close> writes to the mappings it is given, and the caller sees
  that. Here the mappings are objects in a store: a reference is an index into the list of
  all mappings, and a new mapping is added at the end.
\<close>

type_synonym addr = nat

type_synonym heap = "pydict list"

datatype data_ref = NoDataRef | BytesRef json_text | DictRef addr

record request_obj =
  obj_method :: string
  obj_url :: url
  obj_params :: "addr option"
  obj_data :: data_ref
  obj_files :: "addr option"
  obj_headers :: addr
  obj_cookies :: addr

definition new_dict :: "heap \<Rightarrow> addr \<times> heap" where
  "new_dict h = (length h, h @ [[]])"

text \<open>\<^verbatim>\<open>x or {}\<close>: the object \<open>x\<close> itself when it is a non-empty mapping, a new
  empty mapping when \<open>x\<close> is \<^verbatim>\<open>None\<close> or empty.\<close>

definition or_new :: "addr option \<Rightarrow> heap \<Rightarrow> addr \<times> heap" where
  "or_new x h =
     (case x of
        None \<Rightarrow> new_dict h
      | Some a \<Rightarrow> if h ! a = [] then new_dict h else (a, h))"

text \<open>\<^verbatim>\<open>RemoteBase._prepare_request\<close> (lines 58 to 88) on references: the
  \<^verbatim>\<open>Request\<close> it builds holds the objects themselves.\<close>

definition RemoteBase_prepare_request_heap ::
  "string \<Rightarrow> string \<Rightarrow> string \<Rightarrow> addr option \<Rightarrow> addr option \<Rightarrow> addr option \<Rightarrow>
   addr option \<Rightarrow> bool \<Rightarrow> heap \<Rightarrow> (exn + request_obj) \<times> heap" where
  "RemoteBase_prepare_request_heap base path method query_params body cookies headers form_data h =
     (case or_new cookies h of
        (c, h1) \<Rightarrow>
          (case or_new headers h1 of
             (hs, h2) \<Rightarrow>
               (case body of
                  None \<Rightarrow>
                    (Inr \<lparr>obj_method = method, obj_url = Urljoin base path,
                          obj_params = query_params, obj_data = NoDataRef, obj_files = None,
                          obj_headers = hs, obj_cookies = c\<rparr>, h2)
                | Some b \<Rightarrow>
                    if form_data then
                      (case pop_files (map fst (h2 ! b)) (h2 ! b) [] of
                         (Inl e, b', files) \<Rightarrow> (Inl e, h2[b := b'])
                       | (Inr u, b', files) \<Rightarrow>
                           (Inr \<lparr>obj_method = method, obj_url = Urljoin base path,
                                 obj_params = query_params, obj_data = DictRef b,
                                 obj_files = Some (length h2), obj_headers = hs,
                                 obj_cookies = c\<rparr>, h2[b := b'] @ [files]))
                    else
                      (let h3 = h2[hs := AList.update ''Content-Type''
                                           (Plain (JStr ''application/json'')) (h2 ! hs)]
                       in case json_dumps (h3 ! b) of
                            Inl e \<Rightarrow> (Inl e, h3)
                          | Inr j \<Rightarrow>
                              (Inr \<lparr>obj_method = method, obj_url = Urljoin base path,
                                    obj_params = query_params, obj_data = BytesRef j,
                                    obj_files = None, obj_headers = hs, obj_cookies = c\<rparr>,
                               h3)))))"

text \<open>What a request object holds, read off the store.\<close>

definition deref_request :: "heap \<Rightarrow> request_obj \<Rightarrow> http_request" where
  "deref_request h r =
     Request (obj_method r) (obj_url r) (map_option (\<lambda>a. h ! a) (obj_params r))
       (case obj_data r of
          NoDataRef \<Rightarrow> NoData
        | BytesRef j \<Rightarrow> JsonBytes j
        | DictRef a \<Rightarrow> FormFields (h ! a))
       (map_option (\<lambda>a. h ! a) (obj_files r)) (h ! obj_headers r) (h ! obj_cookies r)"

section \<open>The transport\<close>

text \<open>
  The remote end: what \<^verbatim>\<open>Session().send\<close> does with a prepared request, given the
  requests handed to it before. Each operation threads the list of requests handed to
  \<^verbatim>\<open>send\<close> so far.
\<close>

datatype outcome = SendRaises | Responds response

type_synonym remote = "http_request list \<Rightarrow> http_request \<Rightarrow> outcome"

type_synonym prepare =
  "string \<Rightarrow> string \<Rightarrow> pydict option \<Rightarrow> pydict option \<Rightarrow> pydict option \<Rightarrow> pydict option \<Rightarrow> bool
   \<Rightarrow> exn + http_request"

text \<open>Lines 133 to 138: the inspection of a response with status 400 or more.\<close>

definition inspect_detail :: "response \<Rightarrow> exn + unit" where
  "inspect_detail r =
     (case (case response_json r of
              Inl e \<Rightarrow> Inl e
            | Inr j \<Rightarrow>
                (case py_getitem j ''detail'' of
                   Inl e \<Rightarrow> Inl e
                 | Inr details \<Rightarrow> (Inl (EvidentlyServiceError details) :: exn + unit))) of
        Inl e \<Rightarrow> if is_ValueError e then Inr () else Inl e
      | Inr u \<Rightarrow> Inr ())"

text \<open>
  \<^verbatim>\<open>RemoteBase._request\<close> without a response model (lines 129 to 139 and 142);
  \<open>prep\<close> is the \<^verbatim>\<open>_prepare_request\<close> of the object the method is called on.
\<close>

definition RemoteBase_request ::
  "prepare \<Rightarrow> remote \<Rightarrow> string \<Rightarrow> string \<Rightarrow> pydict option \<Rightarrow> pydict option \<Rightarrow> pydict option \<Rightarrow>
   pydict option \<Rightarrow> bool \<Rightarrow> http_request list \<Rightarrow> (exn + response) \<times> http_request list" where
  "RemoteBase_request prep remote path method query_params body cookies headers form_data sent =
     (case prep path method query_params body cookies headers form_data of
        Inl e \<Rightarrow> (Inl e, sent)
      | Inr request \<Rightarrow>
          (case remote sent request of
             SendRaises \<Rightarrow> (Inl ConnectionError, sent @ [request])
           | Responds r \<Rightarrow>
               (case (if 400 \<le> status_code r then inspect_detail r else Inr ()) of
                  Inl e \<Rightarrow> (Inl e, sent @ [request])
                | Inr u \<Rightarrow>
                    (case raise_for_status r of
                       Inl e \<Rightarrow> (Inl e, sent @ [request])
                     | Inr u' \<Rightarrow> (Inr r, sent @ [request])))))"

text \<open>\<^verbatim>\<open>parse_obj_as(response_model, value)\<close>; a response model is its decoder.\<close>

definition parse_obj_as :: "(json \<Rightarrow> 'a option) \<Rightarrow> json \<Rightarrow> exn + 'a" where
  "parse_obj_as model j = (case model j of None \<Rightarrow> Inl ValidationError | Some v \<Rightarrow> Inr v)"

text \<open>The response model \<^verbatim>\<open>List[X]\<close>.\<close>

definition List_of :: "(json \<Rightarrow> 'a option) \<Rightarrow> json \<Rightarrow> 'a list option" where
  "List_of model j = (case j of JList xs \<Rightarrow> those (map model xs) | _ \<Rightarrow> None)"

text \<open>\<^verbatim>\<open>RemoteBase._request\<close> with a response model (lines 129 to 141).\<close>

definition RemoteBase_request_as ::
  "prepare \<Rightarrow> remote \<Rightarrow> string \<Rightarrow> string \<Rightarrow> pydict option \<Rightarrow> pydict option \<Rightarrow>
   (json \<Rightarrow> 'a option) \<Rightarrow> pydict option \<Rightarrow> pydict option \<Rightarrow> bool \<Rightarrow> http_request list \<Rightarrow>
   (exn + 'a) \<times> http_request list" where
  "RemoteBase_request_as prep remote path method query_params body response_model cookies headers
       form_data sent =
     (case RemoteBase_request prep remote path method query_params body cookies headers
             form_data sent of
        (Inl e, sent') \<Rightarrow> (Inl e, sent')
      | (Inr r, sent') \<Rightarrow>
          (case response_json r of
             Inl e \<Rightarrow> (Inl e, sent')
           | Inr j \<Rightarrow>
               (case parse_obj_as response_model j of
                  Inl e \<Rightarrow> (Inl e, sent')
                | Inr v \<Rightarrow> (Inr v, sent'))))"

section \<open>The metadata adapter\<close>

text \<open>
  The entities. A \<^verbatim>\<open>ProjectID\<close> is modelled by its string form. The classes
  \<^verbatim>\<open>Project\<close>, \<^verbatim>\<open>SnapshotMetadata\<close> and \<^verbatim>\<open>Team\<close>
  (\<^verbatim>\<open>evidently.ui.base\<close>) are not among the sources: a project is its identity and
  its other attributes, a snapshot's metadata carries the project it is bound to, and the
  decoders of the response models and \<^verbatim>\<open>Project.dict()\<close> are parameters.
\<close>

record project =
  project_id :: string
  project_attrs :: "(string \<times> json) list"

record snapshot_metadata =
  snapshot_id :: string
  snapshot_attrs :: "(string \<times> json) list"
  bound_project :: "project option"

record team =
  team_id :: "string option"

record domain =
  Project_model :: "json \<Rightarrow> project option"
  SnapshotMetadata_model :: "json \<Rightarrow> snapshot_metadata option"
  Project_dict :: "project \<Rightarrow> (string \<times> json) list"

text \<open>The mapping \<^verbatim>\<open>project.dict()\<close> as an argument mapping: every value is plain.\<close>

definition plain_dict :: "(string \<times> json) list \<Rightarrow> pydict" where
  "plain_dict kvs = map (\<lambda>(k, v). (k, Plain v)) kvs"

text \<open>Modelled from the spec: \<^verbatim>\<open>SnapshotMetadata.bind\<close>, which is not among the
  sources, attaches the fetched parent project to the snapshot's metadata and returns it.\<close>

definition bind :: "snapshot_metadata \<Rightarrow> project \<Rightarrow> snapshot_metadata" where
  "bind sm p = sm\<lparr>bound_project := Some p\<rparr>"

text \<open>Modelled from the spec: the sentinel identifier \<^verbatim>\<open>ZERO_UUID\<close>, the fixed secret
  header name and the expected application name are constants declared outside the sources.\<close>

definition ZERO_UUID :: string where
  "ZERO_UUID = ''00000000-0000-0000-0000-000000000000''"

definition SECRET_HEADER_NAME :: string where
  "SECRET_HEADER_NAME = ''evidently-secret''"

definition EVIDENTLY_APPLICATION_NAME :: string where
  "EVIDENTLY_APPLICATION_NAME = ''Evidently UI''"

record storage =
  base_url :: string
  secret :: "string option"

text \<open>\<^verbatim>\<open>RemoteMetadataStorage._prepare_request\<close> (lines 153 to 174).\<close>

definition RemoteMetadataStorage_prepare_request :: "storage \<Rightarrow> prepare" where
  "RemoteMetadataStorage_prepare_request self path method query_params body cookies headers
       form_data =
     (case RemoteBase_prepare_request (base_url self) path method query_params body cookies
             headers form_data of
        Inl e \<Rightarrow> Inl e
      | Inr r \<Rightarrow>
          (case secret self of
             None \<Rightarrow> Inr r
           | Some s \<Rightarrow>
               Inr (r\<lparr>req_headers :=
                        AList.update SECRET_HEADER_NAME (Plain (JStr s)) (req_headers r)\<rparr>)))"

text \<open>\<^verbatim>\<open>add_project\<close> (lines 176 to 180).\<close>

definition add_project ::
  "domain \<Rightarrow> storage \<Rightarrow> remote \<Rightarrow> project \<Rightarrow> 'u \<Rightarrow> team option \<Rightarrow> http_request list \<Rightarrow>
   (exn + project) \<times> http_request list" where
  "add_project D self remote p user tm sent =
     (let params =
            (case tm of
               None \<Rightarrow> []
             | Some t \<Rightarrow>
                 (case team_id t of
                    None \<Rightarrow> []
                  | Some i \<Rightarrow>
                      if i \<noteq> ZERO_UUID then AList.update ''team_id'' (Plain (JStr i)) [] else []))
      in RemoteBase_request_as (RemoteMetadataStorage_prepare_request self) remote
           ''/api/projects'' ''POST'' (Some params) (Some (plain_dict (Project_dict D p)))
           (Project_model D)
           None None False sent)"

text \<open>
  \<^verbatim>\<open>get_project\<close> (lines 182 to 192). The handler runs for an exception of the class
  imported as \<^verbatim>\<open>HTTPError\<close>; inside it, an exception of the classes
  \<^verbatim>\<open>ValueError\<close> and \<^verbatim>\<open>AttributeError\<close> re-raises the one caught.
\<close>

definition project_not_found_handler :: "exn \<Rightarrow> exn + project option" where
  "project_not_found_handler e =
     (case (case exn_response e of
              None \<Rightarrow> Inl AttributeError
            | Some r \<Rightarrow>
                (case response_json r of
                   Inl x \<Rightarrow> Inl x
                 | Inr data \<Rightarrow>
                     (case py_contains ''detail'' data of
                        Inl x \<Rightarrow> Inl x
                      | Inr False \<Rightarrow> Inl e
                      | Inr True \<Rightarrow>
                          (case py_getitem data ''detail'' of
                             Inl x \<Rightarrow> Inl x
                           | Inr d \<Rightarrow>
                               if d = JStr ''project not found'' then Inr None else Inl e)))) of
        Inl x \<Rightarrow> if is_ValueError x \<or> is_AttributeError x then Inl e else Inl x
      | Inr v \<Rightarrow> Inr v)"

definition get_project ::
  "domain \<Rightarrow> storage \<Rightarrow> remote \<Rightarrow> string \<Rightarrow> http_request list \<Rightarrow>
   (exn + project option) \<times> http_request list" where
  "get_project D self remote pid sent =
     (case RemoteBase_request_as (RemoteMetadataStorage_prepare_request self) remote
             (''/api/projects/'' @ pid @ ''/info'') ''GET'' None None (Project_model D)
             None None False sent of
        (Inr p, sent') \<Rightarrow> (Inr (Some p), sent')
      | (Inl e, sent') \<Rightarrow>
          if is_HTTPError e then (project_not_found_handler e, sent') else (Inl e, sent'))"

text \<open>\<^verbatim>\<open>list_projects\<close> (lines 197 and 198) and \<^verbatim>\<open>search_project\<close>
  (lines 206 and 207).\<close>

definition list_projects ::
  "domain \<Rightarrow> storage \<Rightarrow> remote \<Rightarrow> string set option \<Rightarrow> http_request list \<Rightarrow>
   (exn + project list) \<times> http_request list" where
  "list_projects D self remote project_ids sent =
     RemoteBase_request_as (RemoteMetadataStorage_prepare_request self) remote
       ''/api/projects'' ''GET'' None None (List_of (Project_model D)) None None False sent"

definition search_project ::
  "domain \<Rightarrow> storage \<Rightarrow> remote \<Rightarrow> string \<Rightarrow> string set option \<Rightarrow> http_request list \<Rightarrow>
   (exn + project list) \<times> http_request list" where
  "search_project D self remote project_name project_ids sent =
     RemoteBase_request_as (RemoteMetadataStorage_prepare_request self) remote
       (''/api/projects/search/'' @ project_name) ''GET'' None None (List_of (Project_model D))
       None None False sent"

text \<open>\<^verbatim>\<open>list_snapshots\<close> (lines 209 to 220).\<close>

definition list_snapshots ::
  "domain \<Rightarrow> storage \<Rightarrow> remote \<Rightarrow> string \<Rightarrow> bool \<Rightarrow> bool \<Rightarrow> http_request list \<Rightarrow>
   (exn + snapshot_metadata list) \<times> http_request list" where
  "list_snapshots D self remote pid include_reports include_test_suites sent =
     (case get_project D self remote pid sent of
        (Inl e, sent1) \<Rightarrow> (Inl e, sent1)
      | (Inr None, sent1) \<Rightarrow> (Inl ProjectNotFound, sent1)
      | (Inr (Some p), sent1) \<Rightarrow>
          (case RemoteBase_request_as (RemoteMetadataStorage_prepare_request self) remote
                  (''/api/projects/'' @ pid @ ''/snapshots'') ''GET'' None None
                  (List_of (SnapshotMetadata_model D)) None None False sent1 of
             (Inl e, sent2) \<Rightarrow> (Inl e, sent2)
           | (Inr sms, sent2) \<Rightarrow> (Inr (map (\<lambda>sm. bind sm p) sms), sent2)))"

text \<open>\<^verbatim>\<open>get_snapshot_metadata\<close> (lines 222 to 228).\<close>

definition get_snapshot_metadata ::
  "domain \<Rightarrow> storage \<Rightarrow> remote \<Rightarrow> string \<Rightarrow> string \<Rightarrow> http_request list \<Rightarrow>
   (exn + snapshot_metadata) \<times> http_request list" where
  "get_snapshot_metadata D self remote pid sid sent =
     (case get_project D self remote pid sent of
        (Inl e, sent1) \<Rightarrow> (Inl e, sent1)
      | (Inr None, sent1) \<Rightarrow> (Inl ProjectNotFound, sent1)
      | (Inr (Some p), sent1) \<Rightarrow>
          (case RemoteBase_request_as (RemoteMetadataStorage_prepare_request self) remote
                  (''/api/projects/'' @ pid @ ''/'' @ sid @ ''/metadata'') ''GET'' None None
                  (SnapshotMetadata_model D) None None False sent1 of
             (Inl e, sent2) \<Rightarrow> (Inl e, sent2)
           | (Inr sm, sent2) \<Rightarrow> (Inr (bind sm p), sent2)))"

section \<open>The workspace\<close>

record workspace =
  ws_base_url :: string
  ws_secret :: "string option"
  ws_metadata :: storage

text \<open>The body of the \<^verbatim>\<open>try\<close> of \<^verbatim>\<open>verify\<close> (lines 282 and 283).\<close>

definition version_check :: "workspace \<Rightarrow> remote \<Rightarrow> http_request list \<Rightarrow> (exn + unit) \<times> http_request list" where
  "version_check self remote sent =
     (case RemoteBase_request (RemoteMetadataStorage_prepare_request (ws_metadata self)) remote
             ''/api/version'' ''GET'' None None None None False sent of
        (Inl e, sent') \<Rightarrow> (Inl e, sent')
      | (Inr r, sent') \<Rightarrow>
          (case response_json r of
             Inl e \<Rightarrow> (Inl e, sent')
           | Inr j \<Rightarrow>
               (case py_getitem j ''application'' of
                  Inl e \<Rightarrow> (Inl e, sent')
                | Inr a \<Rightarrow>
                    if a = JStr EVIDENTLY_APPLICATION_NAME then (Inr (), sent')
                    else (Inl AssertionError, sent'))))"

text \<open>\<^verbatim>\<open>RemoteWorkspaceView.verify\<close> (lines 280 to 285).\<close>

definition verify :: "workspace \<Rightarrow> remote \<Rightarrow> http_request list \<Rightarrow> (exn + unit) \<times> http_request list" where
  "verify self remote sent =
     (case version_check self remote sent of
        (Inl e, sent') \<Rightarrow>
          if is_HTTPError e \<or> is_JSONDecodeError e \<or> is_KeyError e \<or> is_AssertionError e
          then (Inl (ValueError (''Evidenly API not available at '' @ ws_base_url self)), sent')
          else (Inl e, sent')
      | (Inr u, sent') \<Rightarrow> (Inr (), sent'))"

text \<open>\<^verbatim>\<open>RemoteWorkspaceView.__init__\<close> (lines 287 to 297): the object exists for the
  caller only when \<^verbatim>\<open>verify\<close> returns.\<close>

definition RemoteWorkspaceView_init ::
  "string \<Rightarrow> string option \<Rightarrow> remote \<Rightarrow> http_request list \<Rightarrow> (exn + workspace) \<times> http_request list" where
  "RemoteWorkspaceView_init url sec remote sent =
     (let self = \<lparr>ws_base_url = url, ws_secret = sec,
                   ws_metadata = \<lparr>base_url = url, secret = sec\<rparr>\<rparr>
      in case verify self remote sent of
           (Inl e, sent') \<Rightarrow> (Inl e, sent')
         | (Inr u, sent') \<Rightarrow> (Inr self, sent'))"

section \<open>A domain for the worked scenarios\<close>

text \<open>
  The theorems hold for every decoder. The scenarios below run the code with these: a project
  and a snapshot's metadata are read from an object that has a string under \<^verbatim>\<open>id\<close>,
  the other entries being the attributes.
\<close>

definition example_Project_model :: "json \<Rightarrow> project option" where
  "example_Project_model j =
     (case j of
        JDict kvs \<Rightarrow>
          (case map_of kvs ''id'' of
             Some (JStr i) \<Rightarrow> Some \<lparr>project_id = i, project_attrs = AList.delete ''id'' kvs\<rparr>
           | _ \<Rightarrow> None)
      | _ \<Rightarrow> None)"

definition example_SnapshotMetadata_model :: "json \<Rightarrow> snapshot_metadata option" where
  "example_SnapshotMetadata_model j =
     (case j of
        JDict kvs \<Rightarrow>
          (case map_of kvs ''id'' of
             Some (JStr i) \<Rightarrow>
               Some \<lparr>snapshot_id = i, snapshot_attrs = AList.delete ''id'' kvs,
                     bound_project = None\<rparr>
           | _ \<Rightarrow> None)
      | _ \<Rightarrow> None)"

definition example_Project_dict :: "project \<Rightarrow> (string \<times> json) list" where
  "example_Project_dict p = (''id'', JStr (project_id p)) # project_attrs p"

definition example_domain :: domain where
  "example_domain =
     \<lparr>Project_model = example_Project_model,
      SnapshotMetadata_model = example_SnapshotMetadata_model,
      Project_dict = example_Project_dict\<rparr>"

text \<open>The headers of a request the adapter prepares when the caller gives none.\<close>

definition secret_headers :: "storage \<Rightarrow> pydict" where
  "secret_headers self =
     (case secret self of None \<Rightarrow> [] | Some s \<Rightarrow> [(SECRET_HEADER_NAME, Plain (JStr s))])"

text \<open>The headers of a request with a JSON body that the adapter prepares when the caller
  gives none.\<close>

definition json_headers :: "storage \<Rightarrow> pydict" where
  "json_headers self =
     (''Content-Type'', Plain (JStr ''application/json'')) # secret_headers self"

text \<open>
  The query parameters as the contract of \<^verbatim>\<open>add_project\<close> words them:
  \<^verbatim>\<open>team_id\<close>, with the team's identity, when a team is supplied whose identity is
  neither null nor the zero sentinel, and nothing otherwise.
\<close>

definition spec_team_params :: "team option \<Rightarrow> pydict" where
  "spec_team_params tm =
     (if tm \<noteq> None \<and> team_id (the tm) \<noteq> None \<and> the (team_id (the tm)) \<noteq> ZERO_UUID
      then [(''team_id'', Plain (JStr (the (team_id (the tm)))))]
      else [])"

text \<open>The two requests that open a snapshot operation and a workspace.\<close>

definition project_info_request :: "storage \<Rightarrow> string \<Rightarrow> http_request" where
  "project_info_request self pid =
     Request ''GET'' (Urljoin (base_url self) (''/api/projects/'' @ pid @ ''/info'')) None NoData
       None (secret_headers self) []"

definition version_request :: "string \<Rightarrow> string option \<Rightarrow> http_request" where
  "version_request url sec =
     Request ''GET'' (Urljoin url ''/api/version'') None NoData None
       (secret_headers \<lparr>base_url = url, secret = sec\<rparr>) []"

text \<open>The error of line 285.\<close>

definition unavailable :: "string \<Rightarrow> exn" where
  "unavailable url = ValueError (''Evidenly API not available at '' @ url)"

text \<open>
  A remote for the scenarios: it answers the first request with a project whose identity is
  \<open>i\<close>, the request for the snapshots of project \<^verbatim>\<open>P1\<close> with a list of one snapshot,
  and any other request with that snapshot.
\<close>

definition example_remote :: "string \<Rightarrow> remote" where
  "example_remote i =
     (\<lambda>sent req.
        if sent = [] then
          Responds \<lparr>status_code = 200, content = Json (JDict [(''id'', JStr i)])\<rparr>
        else if req_url req = Urljoin ''http://svc:8000'' ''/api/projects/P1/snapshots'' then
          Responds \<lparr>status_code = 200, content = Json (JList [JDict [(''id'', JStr ''S1'')]])\<rparr>
        else
          Responds \<lparr>status_code = 200, content = Json (JDict [(''id'', JStr ''S1'')])\<rparr>)"

text \<open>A reference an argument can hold: none, or a mapping of the store with distinct keys.\<close>

definition valid_ref :: "heap \<Rightarrow> addr option \<Rightarrow> bool" where
  "valid_ref h x =
     (case x of None \<Rightarrow> True | Some a \<Rightarrow> a < length h \<and> distinct (map fst (h ! a)))"

text \<open>The exceptions that the transport itself raises, once a request is prepared.\<close>

fun from_transport :: "exn \<Rightarrow> bool" where
  "from_transport ConnectionError = True"
| "from_transport (RequestsHTTPError r) = True"
| "from_transport RequestsJSONDecodeError = True"
| "from_transport (EvidentlyServiceError d) = True"
| "from_transport ValidationError = True"
| "from_transport (KeyError k) = True"
| "from_transport TypeError = True"
| "from_transport e = False"

text \<open>The value behind an optional reference, and the references a list of arguments
  holds.\<close>

definition deref :: "heap \<Rightarrow> addr option \<Rightarrow> pydict option" where
  "deref h x = map_option (\<lambda>a. h ! a) x"

fun arg_refs :: "addr option list \<Rightarrow> addr list" where
  "arg_refs [] = []"
| "arg_refs (None # xs) = arg_refs xs"
| "arg_refs (Some a # xs) = a # arg_refs xs"

section \<open>Facts about the transport\<close>

lemma dumps_items_plain: "dumps_items (plain_dict kvs) = Inr kvs"
  by (induction kvs) (auto simp: plain_dict_def)

lemma json_dumps_plain: "json_dumps (plain_dict kvs) = Inr (json_write (JDict kvs))"
  by (simp add: json_dumps_def json_encode_def dumps_items_plain)

lemma adapter_prepare_plain:
  "RemoteMetadataStorage_prepare_request self path method query_params None None None form_data =
     Inr (Request method (Urljoin (base_url self) path) query_params NoData None
            (secret_headers self) [])"
  by (simp add: RemoteMetadataStorage_prepare_request_def RemoteBase_prepare_request_def
      or_empty_def secret_headers_def Request_def split: option.splits)

text \<open>Every call hands exactly one request to \<^verbatim>\<open>send\<close>, unless preparing it fails.\<close>

lemma request_sent:
  "snd (RemoteBase_request prep remote path method query_params body cookies headers
          form_data sent) =
     (case prep path method query_params body cookies headers form_data of
        Inl e \<Rightarrow> sent
      | Inr req \<Rightarrow> sent @ [req])"
  by (simp add: RemoteBase_request_def split: outcome.splits sum.splits)

lemma request_as_sent:
  "snd (RemoteBase_request_as prep remote path method query_params body model cookies
          headers form_data sent) =
     (case prep path method query_params body cookies headers form_data of
        Inl e \<Rightarrow> sent
      | Inr req \<Rightarrow> sent @ [req])"
proof -
  have "snd (RemoteBase_request_as prep remote path method query_params body model cookies
          headers form_data sent) =
        snd (RemoteBase_request prep remote path method query_params body cookies
          headers form_data sent)"
    by (simp add: RemoteBase_request_as_def split: prod.splits sum.splits)
  then show ?thesis by (simp add: request_sent)
qed

text \<open>What a call raises comes from preparing the request or from the transport; the
  transport raises nothing of the class imported as \<^verbatim>\<open>HTTPError\<close>.\<close>

lemma from_transport_not_HTTPError: "from_transport e \<Longrightarrow> \<not> is_HTTPError e"
  by (cases e) simp_all

lemma inspect_detail_raises: "inspect_detail r = Inl e \<Longrightarrow> from_transport e"
  by (cases "content r"; cases e)
     (auto simp: inspect_detail_def response_json_def
       split: sum.splits if_splits json.splits option.splits elim!: py_getitem.elims)

lemma request_raises:
  assumes "fst (RemoteBase_request prep remote path method query_params body cookies headers
                form_data sent) = Inl e"
  shows "from_transport e \<or> prep path method query_params body cookies headers form_data = Inl e"
  using assms
  by (auto simp: RemoteBase_request_def raise_for_status_def
      split: outcome.splits sum.splits if_splits dest: inspect_detail_raises)

lemma request_as_raises:
  assumes "fst (RemoteBase_request_as prep remote path method query_params body model cookies
                headers form_data sent) = Inl e"
  shows "from_transport e \<or> prep path method query_params body cookies headers form_data = Inl e"
proof -
  obtain res sent' where r:
    "RemoteBase_request prep remote path method query_params body cookies headers
       form_data sent = (res, sent')"
    by (cases "RemoteBase_request prep remote path method query_params body cookies headers
                form_data sent")
  show ?thesis
  proof (cases res)
    case (Inl x)
    with r assms have "x = e" by (simp add: RemoteBase_request_as_def)
    with r Inl have "fst (RemoteBase_request prep remote path method query_params body cookies
        headers form_data sent) = Inl e" by simp
    then show ?thesis by (rule request_raises)
  next
    case (Inr resp)
    with r assms show ?thesis
      by (auto simp: RemoteBase_request_as_def response_json_def parse_obj_as_def
          split: sum.splits content.splits option.splits)
  qed
qed

section \<open>Getting a project\<close>

text \<open>
  The handler of \<^verbatim>\<open>get_project\<close> never runs: whatever the transport raises,
  \<^verbatim>\<open>get_project\<close> raises too, and whatever the transport returns is a project.
\<close>

lemma get_project_passes_on:
  "get_project D self remote pid sent =
     (case RemoteBase_request_as (RemoteMetadataStorage_prepare_request self) remote
             (''/api/projects/'' @ pid @ ''/info'') ''GET'' None None (Project_model D)
             None None False sent of
        (Inr p, sent') \<Rightarrow> (Inr (Some p), sent')
      | (Inl e, sent') \<Rightarrow> (Inl e, sent'))"
proof -
  let ?r = "RemoteBase_request_as (RemoteMetadataStorage_prepare_request self) remote
             (''/api/projects/'' @ pid @ ''/info'') ''GET'' None None (Project_model D)
             None None False sent"
  have "\<not> is_HTTPError e" if "fst ?r = Inl e" for e
    using request_as_raises [OF that] from_transport_not_HTTPError [of e]
    by (auto simp: adapter_prepare_plain)
  then show ?thesis
    by (cases ?r) (auto simp: get_project_def split: sum.splits)
qed

lemma get_project_never_None: "fst (get_project D self remote pid sent) \<noteq> Inr None"
  by (simp add: get_project_passes_on split: prod.splits sum.splits)

lemma get_project_sent:
  "snd (get_project D self remote pid sent) =
     sent @ [Request ''GET'' (Urljoin (base_url self) (''/api/projects/'' @ pid @ ''/info''))
               None NoData None (secret_headers self) []]"
proof -
  have "snd (get_project D self remote pid sent) =
     snd (RemoteBase_request_as (RemoteMetadataStorage_prepare_request self) remote
             (''/api/projects/'' @ pid @ ''/info'') ''GET'' None None (Project_model D)
             None None False sent)"
    by (simp add: get_project_passes_on split: prod.splits sum.splits)
  then show ?thesis by (simp add: request_as_sent adapter_prepare_plain)
qed

text \<open>
  Claim C1. A project that the remote reports as not found, by a response with status 404
  whose body is \<^verbatim>\<open>{"detail": "project not found"}\<close>, is to come back as
  \<^verbatim>\<open>None\<close>. At that response \<^verbatim>\<open>get_project\<close> raises the service error
  of the transport instead, after the one request it sends: line 136 raises it before any
  HTTP error exists, and it is of no class the handler catches.
\<close>

theorem get_project_not_found_raises:
  "get_project D self
     (\<lambda>sent req. Responds \<lparr>status_code = 404,
        content = Json (JDict [(''detail'', JStr ''project not found'')])\<rparr>)
     pid sent =
   (Inl (EvidentlyServiceError (JStr ''project not found'')),
    sent @ [Request ''GET'' (Urljoin (base_url self) (''/api/projects/'' @ pid @ ''/info''))
              None NoData None (secret_headers self) []])"
  by (simp add: get_project_def RemoteBase_request_as_def RemoteBase_request_def
      adapter_prepare_plain inspect_detail_def response_json_def)

text \<open>
  Claim C2. A response with status 400 or more whose body is JSON without a
  \<^verbatim>\<open>detail\<close> field is to end in the generic HTTP error. At status 404 with the body
  \<^verbatim>\<open>{"error": "missing"}\<close> the transport raises the \<^verbatim>\<open>KeyError\<close> of the
  subscript instead.
\<close>

theorem request_missing_detail_raises_KeyError:
  "RemoteBase_request (RemoteMetadataStorage_prepare_request self)
     (\<lambda>sent req. Responds \<lparr>status_code = 404,
        content = Json (JDict [(''error'', JStr ''missing'')])\<rparr>)
     path method query_params None None None False sent =
   (Inl (KeyError ''detail''),
    sent @ [Request method (Urljoin (base_url self) path) query_params NoData None
              (secret_headers self) []])"
  by (simp add: RemoteBase_request_def adapter_prepare_plain inspect_detail_def
      response_json_def)

text \<open>The two cases of the inspection that do what the contract says: a body with a
  \<^verbatim>\<open>detail\<close> field, and a body that is not JSON.\<close>

lemma request_detail_raises_service_error:
  assumes "prep path method query_params body cookies headers form_data = Inr req"
    and "remote sent req = Responds r" and "400 \<le> status_code r"
    and "content r = Json (JDict kvs)" and "map_of kvs ''detail'' = Some d"
  shows "RemoteBase_request prep remote path method query_params body cookies headers
           form_data sent = (Inl (EvidentlyServiceError d), sent @ [req])"
  using assms
  by (simp add: RemoteBase_request_def inspect_detail_def response_json_def)

lemma request_not_json_raises_http_error:
  assumes "prep path method query_params body cookies headers form_data = Inr req"
    and "remote sent req = Responds r" and "400 \<le> status_code r" and "status_code r < 600"
    and "content r = NotJson s"
  shows "RemoteBase_request prep remote path method query_params body cookies headers
           form_data sent = (Inl (RequestsHTTPError r), sent @ [req])"
  using assms
  by (simp add: RemoteBase_request_def inspect_detail_def response_json_def raise_for_status_def)

text \<open>
  Claim C3. For a project that does not resolve, \<^verbatim>\<open>list_snapshots\<close> and
  \<^verbatim>\<open>get_snapshot_metadata\<close> are to raise \<^verbatim>\<open>ProjectNotFound\<close> without a
  snapshot request. When the remote answers the project request with status 404 and
  \<^verbatim>\<open>{"detail": "project not found"}\<close>, both send that one request and no other, and
  both raise the service error of the transport, not \<^verbatim>\<open>ProjectNotFound\<close>.
\<close>

theorem snapshots_of_missing_project_raise_service_error:
  "list_snapshots D self
     (\<lambda>sent req. Responds \<lparr>status_code = 404,
        content = Json (JDict [(''detail'', JStr ''project not found'')])\<rparr>)
     pid include_reports include_test_suites sent =
   (Inl (EvidentlyServiceError (JStr ''project not found'')),
    sent @ [Request ''GET'' (Urljoin (base_url self) (''/api/projects/'' @ pid @ ''/info''))
              None NoData None (secret_headers self) []]) \<and>
   get_snapshot_metadata D self
     (\<lambda>sent req. Responds \<lparr>status_code = 404,
        content = Json (JDict [(''detail'', JStr ''project not found'')])\<rparr>)
     pid sid sent =
   (Inl (EvidentlyServiceError (JStr ''project not found'')),
    sent @ [Request ''GET'' (Urljoin (base_url self) (''/api/projects/'' @ pid @ ''/info''))
              None NoData None (secret_headers self) []])"
  by (simp add: list_snapshots_def get_snapshot_metadata_def get_project_def
      RemoteBase_request_as_def RemoteBase_request_def adapter_prepare_plain
      inspect_detail_def response_json_def)

text \<open>
  What holds of the order: the snapshot request is sent only after the project request has
  returned a project, and when the project request fails nothing else is sent. No run raises
  \<^verbatim>\<open>ProjectNotFound\<close>.
\<close>

lemma snapshot_request_only_after_project:
  "snd (list_snapshots D self remote pid include_reports include_test_suites sent) =
     sent @ [project_info_request self pid] \<or>
   (\<exists>p. fst (get_project D self remote pid sent) = Inr (Some p) \<and>
      snd (list_snapshots D self remote pid include_reports include_test_suites sent) =
        sent @ [project_info_request self pid,
                Request ''GET'' (Urljoin (base_url self) (''/api/projects/'' @ pid @ ''/snapshots''))
                  None NoData None (secret_headers self) []])"
proof -
  obtain r s where g: "get_project D self remote pid sent = (r, s)"
    by (cases "get_project D self remote pid sent")
  with get_project_sent [of D self remote pid sent]
  have s: "s = sent @ [project_info_request self pid]"
    by (simp add: project_info_request_def)
  let ?q = "RemoteBase_request_as (RemoteMetadataStorage_prepare_request self) remote
              (''/api/projects/'' @ pid @ ''/snapshots'') ''GET'' None None
              (List_of (SnapshotMetadata_model D)) None None False s"
  have q: "snd ?q =
      s @ [Request ''GET'' (Urljoin (base_url self) (''/api/projects/'' @ pid @ ''/snapshots''))
             None NoData None (secret_headers self) []]"
    by (simp add: request_as_sent adapter_prepare_plain)
  show ?thesis
  proof (cases r)
    case (Inl e)
    with g s show ?thesis by (simp add: list_snapshots_def)
  next
    case (Inr po)
    show ?thesis
    proof (cases po)
      case None
      with Inr g s show ?thesis by (simp add: list_snapshots_def)
    next
      case (Some p)
      with Inr g have "snd (list_snapshots D self remote pid include_reports include_test_suites sent) = snd ?q"
        by (cases ?q) (auto simp: list_snapshots_def split: sum.splits)
      with q s Some Inr g show ?thesis by simp
    qed
  qed
qed

lemma get_project_raises:
  assumes "fst (get_project D self remote pid sent) = Inl e"
  shows "from_transport e"
proof -
  from assms have "fst (RemoteBase_request_as (RemoteMetadataStorage_prepare_request self) remote
             (''/api/projects/'' @ pid @ ''/info'') ''GET'' None None (Project_model D)
             None None False sent) = Inl e"
    by (auto simp: get_project_passes_on split: prod.splits sum.splits)
  from request_as_raises [OF this] show ?thesis by (simp add: adapter_prepare_plain)
qed

lemma snapshots_never_raise_ProjectNotFound:
  "fst (list_snapshots D self remote pid include_reports include_test_suites sent) \<noteq>
     Inl ProjectNotFound \<and>
   fst (get_snapshot_metadata D self remote pid sid sent) \<noteq> Inl ProjectNotFound"
proof -
  obtain g s where g: "get_project D self remote pid sent = (g, s)"
    by (cases "get_project D self remote pid sent")
  have gn: "g \<noteq> Inr None" using get_project_never_None [of D self remote pid sent] g by simp
  have ge: "g \<noteq> Inl ProjectNotFound"
    using get_project_raises [of D self remote pid sent ProjectNotFound] g by auto
  have q: "fst (RemoteBase_request_as (RemoteMetadataStorage_prepare_request self) remote
              path ''GET'' None None model None None False s) \<noteq> Inl ProjectNotFound"
    for path and model :: "json \<Rightarrow> 'a option"
    using request_as_raises [of "RemoteMetadataStorage_prepare_request self" remote path "''GET''"
        None None model None None False s ProjectNotFound]
    by (auto simp: adapter_prepare_plain)
  show ?thesis
    using g gn ge q [of "''/api/projects/'' @ pid @ ''/snapshots''" "List_of (SnapshotMetadata_model D)"]
      q [of "''/api/projects/'' @ pid @ ''/'' @ sid @ ''/metadata''" "SnapshotMetadata_model D"]
    by (auto simp: list_snapshots_def get_snapshot_metadata_def
        split: sum.splits option.splits prod.splits)
qed

section \<open>Adding and listing\<close>

lemma adapter_prepare_json:
  "RemoteMetadataStorage_prepare_request self path method query_params
       (Some (plain_dict kvs)) None None False =
     Inr (Request method (Urljoin (base_url self) path) query_params
            (JsonBytes (json_write (JDict kvs))) None (json_headers self) [])"
  by (simp add: RemoteMetadataStorage_prepare_request_def RemoteBase_prepare_request_def
      or_empty_def secret_headers_def json_headers_def Request_def json_dumps_plain
      SECRET_HEADER_NAME_def split: option.splits)

text \<open>
  Claim C7. \<^verbatim>\<open>add_project\<close> hands one request to \<^verbatim>\<open>send\<close>: a POST to the
  projects collection whose body is the project's mapping as JSON, and whose query parameters
  hold \<^verbatim>\<open>team_id\<close> exactly when a team with an identity other than null and the zero
  sentinel is supplied.
\<close>

theorem add_project_request:
  "snd (add_project D self remote p user tm sent) =
     sent @ [Request ''POST'' (Urljoin (base_url self) ''/api/projects'')
               (Some (spec_team_params tm))
               (JsonBytes (json_write (JDict (Project_dict D p)))) None
               (json_headers self) []]"
proof -
  have "(case tm of
           None \<Rightarrow> []
         | Some t \<Rightarrow>
             (case team_id t of
                None \<Rightarrow> []
              | Some i \<Rightarrow>
                  if i \<noteq> ZERO_UUID then AList.update ''team_id'' (Plain (JStr i)) [] else []))
        = spec_team_params tm"
    by (simp add: spec_team_params_def split: option.splits)
  then show ?thesis
    by (simp add: add_project_def request_as_sent adapter_prepare_json)
qed

text \<open>The scenario of the spec: no team, secret \<^verbatim>\<open>abc\<close>; and a team whose identity is
  the zero sentinel, and one with an identity of its own.\<close>

theorem add_project_request_witness:
  "snd (add_project example_domain \<lparr>base_url = ''http://svc:8000'', secret = Some ''abc''\<rparr>
          (example_remote ''P1'')
          \<lparr>project_id = ''P1'', project_attrs = [(''name'', JStr ''p1'')]\<rparr> () None []) =
     [Request ''POST'' (Urljoin ''http://svc:8000'' ''/api/projects'') (Some [])
        (JsonBytes (WObject [(''id'', WString ''P1''), (''name'', WString ''p1'')])) None
        [(''Content-Type'', Plain (JStr ''application/json'')),
         (SECRET_HEADER_NAME, Plain (JStr ''abc''))] []] \<and>
   snd (add_project example_domain \<lparr>base_url = ''http://svc:8000'', secret = None\<rparr>
          (example_remote ''P1'')
          \<lparr>project_id = ''P1'', project_attrs = []\<rparr> ()
          (Some \<lparr>team_id = Some ''00000000-0000-0000-0000-000000000000''\<rparr>) []) =
     [Request ''POST'' (Urljoin ''http://svc:8000'' ''/api/projects'') (Some [])
        (JsonBytes (WObject [(''id'', WString ''P1'')])) None
        [(''Content-Type'', Plain (JStr ''application/json''))] []] \<and>
   snd (add_project example_domain \<lparr>base_url = ''http://svc:8000'', secret = None\<rparr>
          (example_remote ''P1'')
          \<lparr>project_id = ''P1'', project_attrs = []\<rparr> ()
          (Some \<lparr>team_id = Some ''T1''\<rparr>) []) =
     [Request ''POST'' (Urljoin ''http://svc:8000'' ''/api/projects'')
        (Some [(''team_id'', Plain (JStr ''T1''))])
        (JsonBytes (WObject [(''id'', WString ''P1'')])) None
        [(''Content-Type'', Plain (JStr ''application/json''))] []]"
  using add_project_request [of example_domain
      "\<lparr>base_url = ''http://svc:8000'', secret = Some ''abc''\<rparr>" "example_remote ''P1''"
      "\<lparr>project_id = ''P1'', project_attrs = [(''name'', JStr ''p1'')]\<rparr>" "()" None "[]"]
    add_project_request [of example_domain
      "\<lparr>base_url = ''http://svc:8000'', secret = None\<rparr>" "example_remote ''P1''"
      "\<lparr>project_id = ''P1'', project_attrs = []\<rparr>" "()"
      "Some \<lparr>team_id = Some ''00000000-0000-0000-0000-000000000000''\<rparr>" "[]"]
    add_project_request [of example_domain
      "\<lparr>base_url = ''http://svc:8000'', secret = None\<rparr>" "example_remote ''P1''"
      "\<lparr>project_id = ''P1'', project_attrs = []\<rparr>" "()"
      "Some \<lparr>team_id = Some ''T1''\<rparr>" "[]"]
  by (simp add: spec_team_params_def json_headers_def secret_headers_def example_domain_def
      example_Project_dict_def ZERO_UUID_def)

text \<open>
  Claim C9. The filter arguments have no effect: \<^verbatim>\<open>list_projects\<close> and
  \<^verbatim>\<open>search_project\<close> do the same for any two values of \<^verbatim>\<open>project_ids\<close>, and
  \<^verbatim>\<open>list_snapshots\<close> for any two values of \<^verbatim>\<open>include_reports\<close> and
  \<^verbatim>\<open>include_test_suites\<close>: the same result and the same requests, which carry no
  query parameter and no body.
\<close>

theorem filters_have_no_effect:
  "list_projects D self remote ids1 sent = list_projects D self remote ids2 sent \<and>
   search_project D self remote name ids1 sent = search_project D self remote name ids2 sent \<and>
   list_snapshots D self remote pid reports1 suites1 sent =
     list_snapshots D self remote pid reports2 suites2 sent \<and>
   snd (list_projects D self remote ids1 sent) =
     sent @ [Request ''GET'' (Urljoin (base_url self) ''/api/projects'') None NoData None
               (secret_headers self) []] \<and>
   snd (search_project D self remote name ids1 sent) =
     sent @ [Request ''GET'' (Urljoin (base_url self) (''/api/projects/search/'' @ name)) None
               NoData None (secret_headers self) []] \<and>
   (snd (list_snapshots D self remote pid reports1 suites1 sent) =
      sent @ [project_info_request self pid] \<or>
    snd (list_snapshots D self remote pid reports1 suites1 sent) =
      sent @ [project_info_request self pid,
              Request ''GET'' (Urljoin (base_url self) (''/api/projects/'' @ pid @ ''/snapshots''))
                None NoData None (secret_headers self) []])"
proof -
  obtain r s where g: "get_project D self remote pid sent = (r, s)"
    by (cases "get_project D self remote pid sent")
  with get_project_sent [of D self remote pid sent]
  have s: "s = sent @ [project_info_request self pid]"
    by (simp add: project_info_request_def)
  let ?q = "RemoteBase_request_as (RemoteMetadataStorage_prepare_request self) remote
              (''/api/projects/'' @ pid @ ''/snapshots'') ''GET'' None None
              (List_of (SnapshotMetadata_model D)) None None False s"
  have q: "snd ?q =
      s @ [Request ''GET'' (Urljoin (base_url self) (''/api/projects/'' @ pid @ ''/snapshots''))
             None NoData None (secret_headers self) []]"
    by (simp add: request_as_sent adapter_prepare_plain)
  have "snd (list_snapshots D self remote pid reports1 suites1 sent) = s \<or>
        snd (list_snapshots D self remote pid reports1 suites1 sent) = snd ?q"
    using g by (cases ?q) (auto simp: list_snapshots_def split: sum.splits option.splits)
  with q s show ?thesis
    by (auto simp: list_projects_def search_project_def list_snapshots_def request_as_sent
        adapter_prepare_plain)
qed

section \<open>Snapshots and their project\<close>

lemma request_as_returns:
  assumes "RemoteBase_request_as prep remote path method query_params body model cookies
                headers form_data sent = (Inr v, sent')"
  shows "\<exists>req r j. prep path method query_params body cookies headers form_data = Inr req \<and>
           remote sent req = Responds r \<and> content r = Json j \<and> model j = Some v"
  using assms
  by (auto simp: RemoteBase_request_as_def RemoteBase_request_def response_json_def
      parse_obj_as_def split: sum.splits outcome.splits content.splits option.splits prod.splits)

text \<open>The project \<^verbatim>\<open>get_project\<close> returns is the one decoded from the remote's answer
  to the project request.\<close>

lemma get_project_returns:
  assumes "get_project D self remote pid sent = (Inr (Some p), sent1)"
  shows "\<exists>r j. remote sent (project_info_request self pid) = Responds r \<and> content r = Json j \<and>
           Project_model D j = Some p"
proof -
  from assms have "RemoteBase_request_as (RemoteMetadataStorage_prepare_request self) remote
             (''/api/projects/'' @ pid @ ''/info'') ''GET'' None None (Project_model D)
             None None False sent = (Inr p, sent1)"
    by (auto simp: get_project_passes_on split: prod.splits sum.splits)
  from request_as_returns [OF this] show ?thesis
    by (auto simp: adapter_prepare_plain project_info_request_def)
qed

text \<open>
  Claim C5, amended. Every snapshot's metadata that \<^verbatim>\<open>list_snapshots\<close> and
  \<^verbatim>\<open>get_snapshot_metadata\<close> return is bound to the project fetched earlier in the
  same call, which is the project decoded from the remote's answer to the project request.
  Its identity is the one in that answer; the code does not compare it with the requested
  identity.
\<close>

theorem snapshots_bound_to_fetched_project:
  "(list_snapshots D self remote pid include_reports include_test_suites sent = (Inr sms, sent2) \<longrightarrow>
      (\<exists>p sent1 r j. get_project D self remote pid sent = (Inr (Some p), sent1) \<and>
         remote sent (project_info_request self pid) = Responds r \<and> content r = Json j \<and>
         Project_model D j = Some p \<and>
         list_all (\<lambda>sm. bound_project sm = Some p) sms)) \<and>
   (get_snapshot_metadata D self remote pid sid sent = (Inr sm, sent3) \<longrightarrow>
      (\<exists>p sent1 r j. get_project D self remote pid sent = (Inr (Some p), sent1) \<and>
         remote sent (project_info_request self pid) = Responds r \<and> content r = Json j \<and>
         Project_model D j = Some p \<and>
         bound_project sm = Some p))"
proof (intro conjI impI)
  assume a: "list_snapshots D self remote pid include_reports include_test_suites sent =
    (Inr sms, sent2)"
  obtain g sent1 where g: "get_project D self remote pid sent = (g, sent1)"
    by (cases "get_project D self remote pid sent")
  with a obtain p where p: "g = Inr (Some p)"
    by (auto simp: list_snapshots_def split: sum.splits option.splits)
  from a g p have "list_all (\<lambda>sm. bound_project sm = Some p) sms"
    by (auto simp: list_snapshots_def bind_def list_all_iff split: sum.splits prod.splits)
  with g p get_project_returns [of D self remote pid sent p sent1]
  show "\<exists>p sent1 r j. get_project D self remote pid sent = (Inr (Some p), sent1) \<and>
         remote sent (project_info_request self pid) = Responds r \<and> content r = Json j \<and>
         Project_model D j = Some p \<and>
         list_all (\<lambda>sm. bound_project sm = Some p) sms"
    by auto
next
  assume a: "get_snapshot_metadata D self remote pid sid sent = (Inr sm, sent3)"
  obtain g sent1 where g: "get_project D self remote pid sent = (g, sent1)"
    by (cases "get_project D self remote pid sent")
  with a obtain p where p: "g = Inr (Some p)"
    by (auto simp: get_snapshot_metadata_def split: sum.splits option.splits)
  from a g p have "bound_project sm = Some p"
    by (auto simp: get_snapshot_metadata_def bind_def split: sum.splits prod.splits)
  with g p get_project_returns [of D self remote pid sent p sent1]
  show "\<exists>p sent1 r j. get_project D self remote pid sent = (Inr (Some p), sent1) \<and>
         remote sent (project_info_request self pid) = Responds r \<and> content r = Json j \<and>
         Project_model D j = Some p \<and>
         bound_project sm = Some p"
    by auto
qed

lemmas example_eval =
  list_snapshots_def get_snapshot_metadata_def get_project_passes_on RemoteBase_request_as_def
  RemoteBase_request_def adapter_prepare_plain example_remote_def response_json_def
  raise_for_status_def parse_obj_as_def example_domain_def example_Project_model_def
  example_SnapshotMetadata_model_def List_of_def bind_def Request_def secret_headers_def
  project_info_request_def

text \<open>A remote that answers the request for project \<^verbatim>\<open>P1\<close> with that project.\<close>

theorem snapshots_bound_to_fetched_project_witness:
  "list_snapshots example_domain \<lparr>base_url = ''http://svc:8000'', secret = None\<rparr>
       (example_remote ''P1'') ''P1'' True True [] =
     (Inr [\<lparr>snapshot_id = ''S1'', snapshot_attrs = [],
            bound_project = Some \<lparr>project_id = ''P1'', project_attrs = []\<rparr>\<rparr>],
      [Request ''GET'' (Urljoin ''http://svc:8000'' ''/api/projects/P1/info'') None NoData None [] [],
       Request ''GET'' (Urljoin ''http://svc:8000'' ''/api/projects/P1/snapshots'') None NoData None
         [] []]) \<and>
   get_snapshot_metadata example_domain \<lparr>base_url = ''http://svc:8000'', secret = None\<rparr>
       (example_remote ''P1'') ''P1'' ''S1'' [] =
     (Inr \<lparr>snapshot_id = ''S1'', snapshot_attrs = [],
           bound_project = Some \<lparr>project_id = ''P1'', project_attrs = []\<rparr>\<rparr>,
      [Request ''GET'' (Urljoin ''http://svc:8000'' ''/api/projects/P1/info'') None NoData None [] [],
       Request ''GET'' (Urljoin ''http://svc:8000'' ''/api/projects/P1/S1/metadata'') None NoData
         None [] []]) \<and>
   (\<exists>p sent1 r j.
       get_project example_domain \<lparr>base_url = ''http://svc:8000'', secret = None\<rparr>
         (example_remote ''P1'') ''P1'' [] = (Inr (Some p), sent1) \<and>
       example_remote ''P1'' []
         (project_info_request \<lparr>base_url = ''http://svc:8000'', secret = None\<rparr> ''P1'') =
         Responds r \<and>
       content r = Json j \<and> Project_model example_domain j = Some p \<and>
       list_all (\<lambda>sm. bound_project sm = Some p)
         [\<lparr>snapshot_id = ''S1'', snapshot_attrs = [],
           bound_project = Some \<lparr>project_id = ''P1'', project_attrs = []\<rparr>\<rparr>] \<and>
       bound_project
         \<lparr>snapshot_id = ''S1'', snapshot_attrs = [],
           bound_project = Some \<lparr>project_id = ''P1'', project_attrs = []\<rparr>\<rparr> = Some p)"
proof -
  have 1: "list_snapshots example_domain \<lparr>base_url = ''http://svc:8000'', secret = None\<rparr>
       (example_remote ''P1'') ''P1'' True True [] =
     (Inr [\<lparr>snapshot_id = ''S1'', snapshot_attrs = [],
            bound_project = Some \<lparr>project_id = ''P1'', project_attrs = []\<rparr>\<rparr>],
      [Request ''GET'' (Urljoin ''http://svc:8000'' ''/api/projects/P1/info'') None NoData None [] [],
       Request ''GET'' (Urljoin ''http://svc:8000'' ''/api/projects/P1/snapshots'') None NoData None
         [] []])"
    by (simp add: example_eval)
  have 2: "get_snapshot_metadata example_domain \<lparr>base_url = ''http://svc:8000'', secret = None\<rparr>
       (example_remote ''P1'') ''P1'' ''S1'' [] =
     (Inr \<lparr>snapshot_id = ''S1'', snapshot_attrs = [],
           bound_project = Some \<lparr>project_id = ''P1'', project_attrs = []\<rparr>\<rparr>,
      [Request ''GET'' (Urljoin ''http://svc:8000'' ''/api/projects/P1/info'') None NoData None [] [],
       Request ''GET'' (Urljoin ''http://svc:8000'' ''/api/projects/P1/S1/metadata'') None NoData
         None [] []])"
    by (simp add: example_eval)
  from snapshots_bound_to_fetched_project [THEN conjunct1, rule_format, OF 1]
    snapshots_bound_to_fetched_project [THEN conjunct2, rule_format, OF 2] 1 2
  show ?thesis by (auto simp: list_all_iff)
qed

text \<open>A remote that answers the request for project \<^verbatim>\<open>P1\<close> with project
  \<^verbatim>\<open>P2\<close>: the snapshot comes back bound to \<^verbatim>\<open>P2\<close>.\<close>

theorem bound_project_identity_counterexample:
  "fst (list_snapshots example_domain \<lparr>base_url = ''http://svc:8000'', secret = None\<rparr>
          (example_remote ''P2'') ''P1'' True True []) =
     Inr [\<lparr>snapshot_id = ''S1'', snapshot_attrs = [],
           bound_project = Some \<lparr>project_id = ''P2'', project_attrs = []\<rparr>\<rparr>] \<and>
   map_option project_id
     (bound_project \<lparr>snapshot_id = ''S1'', snapshot_attrs = [],
        bound_project = Some \<lparr>project_id = ''P2'', project_attrs = []\<rparr>\<rparr>) \<noteq> Some ''P1''"
  by (simp add: example_eval)

section \<open>Non-finite floats in a body\<close>

text \<open>Reading back what was written gives the value that was written.\<close>

lemma json_loads_write: "json_loads (json_write j) = j"
proof (induction j)
  case (JFloat f)
  then show ?case by (cases f) simp_all
next
  case (JList xs)
  then show ?case by (simp add: map_idI)
next
  case (JDict kvs)
  have "(\<lambda>(k, v). (k, json_loads v)) ((\<lambda>(k, v). (k, json_write v)) kv) = kv"
    if "kv \<in> set kvs" for kv
  proof (cases kv)
    case (Pair k v)
    with that JDict [of kv v] show ?thesis by simp
  qed
  then have "map ((\<lambda>(k, v). (k, json_loads v)) \<circ> (\<lambda>(k, v). (k, json_write v))) kvs = kvs"
    by (intro map_idI) simp
  then show ?case by simp
qed simp_all

text \<open>With \<^verbatim>\<open>allow_nan\<close> true every value is written; with \<^verbatim>\<open>allow_nan\<close>
  false a non-finite float is an error.\<close>

lemma json_encode_allow_nan: "json_encode True j = Inr (json_write j)"
  by (simp add: json_encode_def)

lemma json_encode_strict:
  "json_encode False j =
     (if finite_floats j then Inr (json_write j)
      else Inl (ValueError ''Out of range float values are not JSON compliant''))"
  by (simp add: json_encode_def)

lemma json_encode_strict_NaN:
  "json_encode False (JDict [(''loss'', JFloat NaN)]) =
     Inl (ValueError ''Out of range float values are not JSON compliant'')"
  by (simp add: json_encode_def)

text \<open>
  Claim C8. A JSON body, whatever floats it holds, non-finite ones included, is serialised
  without an error: the request is built, its data is the text written for the body, with
  \<^verbatim>\<open>NaN\<close>, \<^verbatim>\<open>Infinity\<close> and \<^verbatim>\<open>-Infinity\<close> for the non-finite floats,
  and reading that text back gives the body.
\<close>

theorem json_body_with_floats_round_trips:
  "RemoteBase_prepare_request base path method query_params (Some (plain_dict kvs)) cookies
       headers False =
     Inr (Request method (Urljoin base path) query_params (JsonBytes (json_write (JDict kvs)))
            None
            (AList.update ''Content-Type'' (Plain (JStr ''application/json''))
               (or_empty headers))
            (or_empty cookies)) \<and>
   json_loads (json_write (JDict kvs)) = JDict kvs \<and>
   json_write (JFloat NaN) = WNaN \<and>
   json_write (JFloat PosInf) = WInfinity \<and>
   json_write (JFloat NegInf) = WMinusInfinity"
proof -
  have "json_dumps (plain_dict kvs) = Inr (json_write (JDict kvs))"
    by (rule json_dumps_plain)
  then have "RemoteBase_prepare_request base path method query_params (Some (plain_dict kvs))
       cookies headers False =
     Inr (Request method (Urljoin base path) query_params (JsonBytes (json_write (JDict kvs)))
            None
            (AList.update ''Content-Type'' (Plain (JStr ''application/json''))
               (or_empty headers))
            (or_empty cookies))"
    by (simp add: RemoteBase_prepare_request_def del: json_write.simps)
  moreover have "json_loads (json_write (JDict kvs)) = JDict kvs"
    by (rule json_loads_write)
  moreover have "json_write (JFloat NaN) = WNaN" "json_write (JFloat PosInf) = WInfinity"
    "json_write (JFloat NegInf) = WMinusInfinity"
    by simp_all
  ultimately show ?thesis by blast
qed

text \<open>A body with the three non-finite floats, one of them inside a list, and a finite
  float.\<close>

theorem json_body_with_floats_round_trips_witness:
  "RemoteBase_prepare_request ''http://svc:8000'' ''/api/projects'' ''POST'' None
       (Some [(''loss'', Plain (JFloat NaN)),
              (''bounds'', Plain (JList [JFloat NegInf, JFloat PosInf])),
              (''rate'', Plain (JFloat (Finite 3 (- 1))))])
       None None False =
     Inr (Request ''POST'' (Urljoin ''http://svc:8000'' ''/api/projects'') None
            (JsonBytes (WObject [(''loss'', WNaN),
                                 (''bounds'', WArray [WMinusInfinity, WInfinity]),
                                 (''rate'', WFloat 3 (- 1))]))
            None [(''Content-Type'', Plain (JStr ''application/json''))] []) \<and>
   json_loads (WObject [(''loss'', WNaN),
                        (''bounds'', WArray [WMinusInfinity, WInfinity]),
                        (''rate'', WFloat 3 (- 1))]) =
     JDict [(''loss'', JFloat NaN),
            (''bounds'', JList [JFloat NegInf, JFloat PosInf]),
            (''rate'', JFloat (Finite 3 (- 1)))]"
  using json_body_with_floats_round_trips [of "''http://svc:8000''" "''/api/projects''" "''POST''"
      None "[(''loss'', JFloat NaN), (''bounds'', JList [JFloat NegInf, JFloat PosInf]),
             (''rate'', JFloat (Finite 3 (- 1)))]" None None]
  by (simp add: plain_dict_def or_empty_def)

section \<open>The secret header\<close>

lemma base_prepare_headers:
  assumes "RemoteBase_prepare_request base path method query_params body cookies headers
             form_data = Inr r"
  shows "req_headers r = or_empty headers \<or>
         req_headers r =
           AList.update ''Content-Type'' (Plain (JStr ''application/json'')) (or_empty headers)"
  using assms
  by (auto simp: RemoteBase_prepare_request_def Request_def Let_def
      split: option.splits if_splits sum.splits prod.splits)

lemma base_prepare_secret_header:
  assumes "RemoteBase_prepare_request base path method query_params body cookies headers
             form_data = Inr r"
  shows "map_of (req_headers r) SECRET_HEADER_NAME = map_of (or_empty headers) SECRET_HEADER_NAME"
  using base_prepare_headers [OF assms]
  by (auto simp: update_conv' SECRET_HEADER_NAME_def)

text \<open>
  Claim C6, amended. The request the adapter prepares is the one the plain transport prepares,
  but for the secret header: with a secret configured the header carries the secret; with
  none configured the adapter adds nothing, so the header is absent unless the caller's own
  headers carry it. Every other header and every other part of the request is the same, and
  the adapter fails exactly when the plain transport does.
\<close>

theorem secret_header_injection:
  "(case RemoteBase_prepare_request (base_url self) path method query_params body cookies headers
           form_data of
      Inl e \<Rightarrow>
        RemoteMetadataStorage_prepare_request self path method query_params body cookies headers
          form_data = Inl e
    | Inr r \<Rightarrow>
        (\<exists>r'. RemoteMetadataStorage_prepare_request self path method query_params body cookies
                 headers form_data = Inr r' \<and>
              req_method r' = req_method r \<and> req_url r' = req_url r \<and>
              req_params r' = req_params r \<and> req_data r' = req_data r \<and>
              req_files r' = req_files r \<and> req_cookies r' = req_cookies r \<and>
              (\<forall>k. k \<noteq> SECRET_HEADER_NAME \<longrightarrow>
                 map_of (req_headers r') k = map_of (req_headers r) k) \<and>
              map_of (req_headers r') SECRET_HEADER_NAME =
                (case secret self of
                   Some s \<Rightarrow> Some (Plain (JStr s))
                 | None \<Rightarrow> map_of (or_empty headers) SECRET_HEADER_NAME) \<and>
              (secret self = None \<longrightarrow> r' = r)))"
proof (cases "RemoteBase_prepare_request (base_url self) path method query_params body cookies
           headers form_data")
  case (Inl e)
  then show ?thesis by (simp add: RemoteMetadataStorage_prepare_request_def)
next
  case (Inr r)
  show ?thesis
  proof (cases "secret self")
    case None
    with Inr base_prepare_secret_header [OF Inr] show ?thesis
      by (simp add: RemoteMetadataStorage_prepare_request_def)
  next
    case (Some s)
    with Inr show ?thesis
      by (simp add: RemoteMetadataStorage_prepare_request_def update_conv')
  qed
qed

text \<open>A request without headers, with and without a secret, and a JSON request with a
  header of the caller's.\<close>

theorem secret_header_injection_witness:
  "RemoteMetadataStorage_prepare_request \<lparr>base_url = ''http://svc:8000'', secret = Some ''abc''\<rparr>
       ''/api/projects'' ''GET'' None None None None False =
     Inr (Request ''GET'' (Urljoin ''http://svc:8000'' ''/api/projects'') None NoData None
            [(SECRET_HEADER_NAME, Plain (JStr ''abc''))] []) \<and>
   RemoteMetadataStorage_prepare_request \<lparr>base_url = ''http://svc:8000'', secret = None\<rparr>
       ''/api/projects'' ''GET'' None None None None False =
     Inr (Request ''GET'' (Urljoin ''http://svc:8000'' ''/api/projects'') None NoData None [] []) \<and>
   RemoteBase_prepare_request ''http://svc:8000'' ''/api/projects'' ''GET'' None None None None
       False =
     Inr (Request ''GET'' (Urljoin ''http://svc:8000'' ''/api/projects'') None NoData None [] []) \<and>
   RemoteMetadataStorage_prepare_request \<lparr>base_url = ''http://svc:8000'', secret = Some ''abc''\<rparr>
       ''/api/projects'' ''POST'' None (Some [(''name'', Plain (JStr ''p1''))]) None
       (Some [(''Accept'', Plain (JStr ''*/*''))]) False =
     Inr (Request ''POST'' (Urljoin ''http://svc:8000'' ''/api/projects'') None
            (JsonBytes (WObject [(''name'', WString ''p1'')])) None
            [(''Accept'', Plain (JStr ''*/*'')),
             (''Content-Type'', Plain (JStr ''application/json'')),
             (SECRET_HEADER_NAME, Plain (JStr ''abc''))] []) \<and>
   RemoteBase_prepare_request ''http://svc:8000''
       ''/api/projects'' ''POST'' None (Some [(''name'', Plain (JStr ''p1''))]) None
       (Some [(''Accept'', Plain (JStr ''*/*''))]) False =
     Inr (Request ''POST'' (Urljoin ''http://svc:8000'' ''/api/projects'') None
            (JsonBytes (WObject [(''name'', WString ''p1'')])) None
            [(''Accept'', Plain (JStr ''*/*'')),
             (''Content-Type'', Plain (JStr ''application/json''))] [])"
  using secret_header_injection [of "\<lparr>base_url = ''http://svc:8000'', secret = Some ''abc''\<rparr>"
      "''/api/projects''" "''GET''" None None None None False]
    secret_header_injection [of "\<lparr>base_url = ''http://svc:8000'', secret = None\<rparr>"
      "''/api/projects''" "''GET''" None None None None False]
    secret_header_injection [of "\<lparr>base_url = ''http://svc:8000'', secret = Some ''abc''\<rparr>"
      "''/api/projects''" "''POST''" None "Some [(''name'', Plain (JStr ''p1''))]" None
      "Some [(''Accept'', Plain (JStr ''*/*''))]" False]
  by (simp add: RemoteMetadataStorage_prepare_request_def RemoteBase_prepare_request_def
      or_empty_def Request_def json_dumps_def json_encode_def SECRET_HEADER_NAME_def)

text \<open>No secret is configured and the caller's headers carry the header: it is on the
  request.\<close>

theorem secret_header_from_caller_counterexample:
  "RemoteMetadataStorage_prepare_request \<lparr>base_url = ''http://svc:8000'', secret = None\<rparr>
       ''/api/projects'' ''GET'' None None None
       (Some [(SECRET_HEADER_NAME, Plain (JStr ''from-caller''))]) False =
     Inr (Request ''GET'' (Urljoin ''http://svc:8000'' ''/api/projects'') None NoData None
            [(SECRET_HEADER_NAME, Plain (JStr ''from-caller''))] []) \<and>
   map_of [(SECRET_HEADER_NAME, Plain (JStr ''from-caller''))] SECRET_HEADER_NAME \<noteq> None"
  by (simp add: RemoteMetadataStorage_prepare_request_def RemoteBase_prepare_request_def
      or_empty_def)

section \<open>Constructing the workspace\<close>

lemma request_returns:
  assumes "RemoteBase_request prep remote path method query_params body cookies
                headers form_data sent = (Inr r, sent')"
  shows "\<exists>req. prep path method query_params body cookies headers form_data = Inr req \<and>
           remote sent req = Responds r \<and> \<not> (400 \<le> status_code r \<and> status_code r < 600)"
  using assms
  by (auto simp: RemoteBase_request_def raise_for_status_def
      split: sum.splits outcome.splits if_splits)

lemma request_below_400:
  assumes "prep path method query_params body cookies headers form_data = Inr req"
    and "remote sent req = Responds r" and "status_code r < 400"
  shows "RemoteBase_request prep remote path method query_params body cookies
                headers form_data sent = (Inr r, sent @ [req])"
  using assms by (simp add: RemoteBase_request_def raise_for_status_def)

lemma version_check_ok:
  assumes "version_check self remote sent = (Inr u, sent')"
  shows "\<exists>r kvs. remote sent (version_request (base_url (ws_metadata self)) (secret (ws_metadata self))) = Responds r \<and>
           content r = Json (JDict kvs) \<and>
           map_of kvs ''application'' = Some (JStr EVIDENTLY_APPLICATION_NAME)"
proof -
  obtain res s where q: "RemoteBase_request (RemoteMetadataStorage_prepare_request (ws_metadata self)) remote
             ''/api/version'' ''GET'' None None None None False sent = (res, s)"
    by (cases "RemoteBase_request (RemoteMetadataStorage_prepare_request (ws_metadata self)) remote
             ''/api/version'' ''GET'' None None None None False sent")
  with assms obtain r where r: "res = Inr r"
    by (cases res) (auto simp: version_check_def)
  from request_returns [OF q [unfolded r]]
  have rem: "remote sent (version_request (base_url (ws_metadata self)) (secret (ws_metadata self))) = Responds r"
    by (auto simp: adapter_prepare_plain version_request_def secret_headers_def)
  from assms q r obtain j where j: "content r = Json j"
    by (cases "content r") (auto simp: version_check_def response_json_def)
  from assms q r j obtain kvs where "j = JDict kvs"
    by (cases j) (auto simp: version_check_def response_json_def)
  with assms q r j have "map_of kvs ''application'' = Some (JStr EVIDENTLY_APPLICATION_NAME)"
    by (auto simp: version_check_def response_json_def split: option.splits if_splits)
  with rem j \<open>j = JDict kvs\<close> show ?thesis by auto
qed

lemma version_check_sent:
  "snd (version_check self remote sent) =
     snd (RemoteBase_request (RemoteMetadataStorage_prepare_request (ws_metadata self)) remote
            ''/api/version'' ''GET'' None None None None False sent)"
  by (simp add: version_check_def split: prod.splits sum.splits)

lemma verify_sent: "snd (verify self remote sent) = snd (version_check self remote sent)"
  by (simp add: verify_def split: prod.splits sum.splits)

lemma init_sent:
  "snd (RemoteWorkspaceView_init url sec remote sent) = sent @ [version_request url sec]"
proof -
  have "snd (RemoteWorkspaceView_init url sec remote sent) =
        snd (verify \<lparr>ws_base_url = url, ws_secret = sec,
                     ws_metadata = \<lparr>base_url = url, secret = sec\<rparr>\<rparr> remote sent)"
    by (simp add: RemoteWorkspaceView_init_def Let_def split: prod.splits sum.splits)
  then show ?thesis
    by (simp add: verify_sent version_check_sent request_sent adapter_prepare_plain
        version_request_def)
qed

lemma init_rejects:
  assumes "remote sent (version_request url sec) = Responds r" and "status_code r < 400"
    and "content r = NotJson s \<or>
         (content r = Json (JDict kvs) \<and>
          map_of kvs ''application'' \<noteq> Some (JStr EVIDENTLY_APPLICATION_NAME))"
  shows "fst (RemoteWorkspaceView_init url sec remote sent) = Inl (unavailable url)"
proof -
  have "RemoteBase_request
               (RemoteMetadataStorage_prepare_request \<lparr>base_url = url, secret = sec\<rparr>) remote
               ''/api/version'' ''GET'' None None None None False sent =
        (Inr r, sent @ [version_request url sec])"
    using assms(1,2)
    by (intro request_below_400) (simp_all add: adapter_prepare_plain version_request_def)
  with assms(3) show ?thesis
    by (auto simp: RemoteWorkspaceView_init_def verify_def version_check_def response_json_def
        unavailable_def Let_def split: option.splits)
qed

lemma init_ok:
  assumes "fst (RemoteWorkspaceView_init url sec remote sent) = Inr ws"
  shows "ws = \<lparr>ws_base_url = url, ws_secret = sec,
                ws_metadata = \<lparr>base_url = url, secret = sec\<rparr>\<rparr> \<and>
         (\<exists>r kvs. remote sent (version_request url sec) = Responds r \<and>
           content r = Json (JDict kvs) \<and>
           map_of kvs ''application'' = Some (JStr EVIDENTLY_APPLICATION_NAME))"
proof -
  let ?self = "\<lparr>ws_base_url = url, ws_secret = sec,
                ws_metadata = \<lparr>base_url = url, secret = sec\<rparr>\<rparr>"
  obtain res s where v: "version_check ?self remote sent = (res, s)"
    by (cases "version_check ?self remote sent")
  with assms have "res = Inr ()" and "ws = ?self"
    by (auto simp: RemoteWorkspaceView_init_def verify_def Let_def split: sum.splits if_splits)
  with version_check_ok [of ?self remote sent "()" s] v show ?thesis by simp
qed

text \<open>When no response arrives, the error of the transport leaves \<^verbatim>\<open>verify\<close> and
  the constructor as it is.\<close>

lemma init_transport_failure:
  assumes "remote sent (version_request url sec) = SendRaises"
  shows "fst (RemoteWorkspaceView_init url sec remote sent) = Inl ConnectionError"
proof -
  have "RemoteBase_request
          (RemoteMetadataStorage_prepare_request \<lparr>base_url = url, secret = sec\<rparr>) remote
          ''/api/version'' ''GET'' None None None None False sent =
        (Inl ConnectionError, sent @ [version_request url sec])"
    using assms
    by (simp add: RemoteBase_request_def adapter_prepare_plain version_request_def)
  then show ?thesis
    by (simp add: RemoteWorkspaceView_init_def verify_def version_check_def Let_def)
qed

text \<open>
  Claim C4, amended. Constructing the workspace hands one request to \<^verbatim>\<open>send\<close>, the
  version request. When the remote answers it with a status below 400 and a body that is not
  JSON, or a JSON object whose \<^verbatim>\<open>application\<close> field is missing or differs from
  the expected name, construction fails with the error that names the endpoint. When no
  response arrives, construction fails with the error of the transport itself. A workspace
  is returned only if the remote answered with a JSON object whose \<^verbatim>\<open>application\<close>
  field is the expected name; in every other case construction raises.
\<close>

theorem workspace_init_handshake:
  "snd (RemoteWorkspaceView_init url sec remote sent) = sent @ [version_request url sec] \<and>
   (remote sent (version_request url sec) = Responds r \<and> status_code r < 400 \<and>
    (content r = NotJson s \<or>
     (content r = Json (JDict kvs) \<and>
      map_of kvs ''application'' \<noteq> Some (JStr EVIDENTLY_APPLICATION_NAME))) \<longrightarrow>
    fst (RemoteWorkspaceView_init url sec remote sent) = Inl (unavailable url)) \<and>
   (remote sent (version_request url sec) = SendRaises \<longrightarrow>
    fst (RemoteWorkspaceView_init url sec remote sent) = Inl ConnectionError) \<and>
   (fst (RemoteWorkspaceView_init url sec remote sent) = Inr ws \<longrightarrow>
    ws = \<lparr>ws_base_url = url, ws_secret = sec,
           ws_metadata = \<lparr>base_url = url, secret = sec\<rparr>\<rparr> \<and>
    (\<exists>r' kvs'. remote sent (version_request url sec) = Responds r' \<and>
       content r' = Json (JDict kvs') \<and>
       map_of kvs' ''application'' = Some (JStr EVIDENTLY_APPLICATION_NAME)))"
  using init_sent [of url sec remote sent] init_rejects [of remote sent url sec r s kvs]
    init_transport_failure [of remote sent url sec] init_ok [of url sec remote sent ws]
  by blast

lemmas init_eval =
  RemoteWorkspaceView_init_def verify_def version_check_def RemoteBase_request_def
  adapter_prepare_plain raise_for_status_def response_json_def inspect_detail_def
  EVIDENTLY_APPLICATION_NAME_def unavailable_def version_request_def secret_headers_def
  Request_def

theorem workspace_init_handshake_witness:
  "fst (RemoteWorkspaceView_init ''http://svc:8000'' None
          (\<lambda>sent req. Responds \<lparr>status_code = 200,
             content = Json (JDict [(''application'', JStr ''Another service'')])\<rparr>) []) =
     Inl (ValueError ''Evidenly API not available at http://svc:8000'') \<and>
   fst (RemoteWorkspaceView_init ''http://svc:8000'' None
          (\<lambda>sent req. Responds \<lparr>status_code = 200, content = NotJson ''<html>''\<rparr>) []) =
     Inl (ValueError ''Evidenly API not available at http://svc:8000'') \<and>
   RemoteWorkspaceView_init ''http://svc:8000'' None
          (\<lambda>sent req. Responds \<lparr>status_code = 200,
             content = Json (JDict [(''application'', JStr ''Evidently UI'')])\<rparr>) [] =
     (Inr \<lparr>ws_base_url = ''http://svc:8000'', ws_secret = None,
           ws_metadata = \<lparr>base_url = ''http://svc:8000'', secret = None\<rparr>\<rparr>,
      [Request ''GET'' (Urljoin ''http://svc:8000'' ''/api/version'') None NoData None [] []]) \<and>
   fst (RemoteWorkspaceView_init ''http://svc:8000'' (Some ''abc'') (\<lambda>sent req. SendRaises)
          [Request ''GET'' (Urljoin ''http://svc:8000'' ''/api/projects'') None NoData None [] []]) =
     Inl ConnectionError"
proof -
  let ?other = "\<lparr>status_code = 200,
             content = Json (JDict [(''application'', JStr ''Another service'')])\<rparr>"
  let ?html = "\<lparr>status_code = 200, content = NotJson ''<html>''\<rparr>"
  let ?good = "\<lparr>status_code = 200,
             content = Json (JDict [(''application'', JStr ''Evidently UI'')])\<rparr>"
  have 1: "fst (RemoteWorkspaceView_init ''http://svc:8000'' None (\<lambda>sent req. Responds ?other) [])
      = Inl (unavailable ''http://svc:8000'')"
    using workspace_init_handshake [of "''http://svc:8000''" None "\<lambda>sent req. Responds ?other" "[]"
        ?other "''''" "[(''application'', JStr ''Another service'')]"]
    by (simp add: EVIDENTLY_APPLICATION_NAME_def)
  have 2: "fst (RemoteWorkspaceView_init ''http://svc:8000'' None (\<lambda>sent req. Responds ?html) [])
      = Inl (unavailable ''http://svc:8000'')"
    using workspace_init_handshake [of "''http://svc:8000''" None "\<lambda>sent req. Responds ?html" "[]"
        ?html "''<html>''" "[]"]
    by simp
  have 3: "RemoteWorkspaceView_init ''http://svc:8000'' None (\<lambda>sent req. Responds ?good) [] =
     (Inr \<lparr>ws_base_url = ''http://svc:8000'', ws_secret = None,
           ws_metadata = \<lparr>base_url = ''http://svc:8000'', secret = None\<rparr>\<rparr>,
      [Request ''GET'' (Urljoin ''http://svc:8000'' ''/api/version'') None NoData None [] []])"
    by (simp add: init_eval)
  have 4: "fst (RemoteWorkspaceView_init ''http://svc:8000'' (Some ''abc'') (\<lambda>sent req. SendRaises)
          [Request ''GET'' (Urljoin ''http://svc:8000'' ''/api/projects'') None NoData None [] []]) =
     Inl ConnectionError"
    using workspace_init_handshake [of "''http://svc:8000''" "Some ''abc''" "\<lambda>sent req. SendRaises"
        "[Request ''GET'' (Urljoin ''http://svc:8000'' ''/api/projects'') None NoData None [] []]"]
    by simp
  from 1 2 3 4 show ?thesis by (simp add: unavailable_def)
qed

text \<open>When no response arrives, construction fails with the error of the transport, not
  with the error that names the endpoint.\<close>

theorem workspace_init_transport_failure_counterexample:
  "fst (RemoteWorkspaceView_init ''http://svc:8000'' None (\<lambda>sent req. SendRaises) []) =
     Inl ConnectionError \<and>
   fst (RemoteWorkspaceView_init ''http://svc:8000'' None (\<lambda>sent req. SendRaises) []) \<noteq>
     Inl (unavailable ''http://svc:8000'')"
  by (simp add: init_eval)

text \<open>An error status with a body that is not JSON: the error of
  \<^verbatim>\<open>raise_for_status\<close> is not of the class \<^verbatim>\<open>verify\<close> catches.\<close>

lemma init_http_error_status_propagates:
  "fst (RemoteWorkspaceView_init ''http://svc:8000'' None
          (\<lambda>sent req. Responds \<lparr>status_code = 503, content = NotJson ''unavailable''\<rparr>) []) =
     Inl (RequestsHTTPError \<lparr>status_code = 503, content = NotJson ''unavailable''\<rparr>)"
  by (simp add: init_eval)

section \<open>What preparing a request does to its arguments\<close>

lemma map_of_unique:
  assumes "distinct (map fst body)" and "map_of body k = Some v" and "(k, v') \<in> set body"
  shows "v' = v"
  using assms by (metis map_of_is_SomeI option.inject)

lemma pop_files_body:
  assumes "distinct (map fst body)" and "distinct ks" and "set ks \<subseteq> fst ` set body"
  shows "fst (pop_files ks body files) = Inr () \<and>
         fst (snd (pop_files ks body files)) =
           filter (\<lambda>kv. \<not> (fst kv \<in> set ks \<and> is_IOBase (snd kv))) body"
  using assms
proof (induction ks arbitrary: body files)
  case Nil
  then show ?case by simp
next
  case (Cons k ks)
  from Cons.prems(3) obtain v where v: "map_of body k = Some v"
    by (cases "map_of body k") (auto simp: map_of_eq_None_iff)
  have uniq: "snd kv = v" if "kv \<in> set body" and "fst kv = k" for kv
    using map_of_unique [OF Cons.prems(1) v, of "snd kv"] that by (cases kv) auto
  show ?case
  proof (cases "is_IOBase v")
    case True
    have d: "distinct (map fst (AList.delete k body))"
      using Cons.prems(1) by (simp add: AList.distinct_delete)
    have s: "set ks \<subseteq> fst ` set (AList.delete k body)"
    proof
      fix x assume x: "x \<in> set ks"
      with Cons.prems(2) have "x \<noteq> k" by auto
      moreover from x Cons.prems(3) obtain w where "(x, w) \<in> set body" by force
      ultimately show "x \<in> fst ` set (AList.delete k body)"
        by (force simp: AList.delete_eq)
    qed
    from Cons.prems(2) have dk: "distinct ks" by simp
    have "filter (\<lambda>kv. \<not> (fst kv \<in> set ks \<and> is_IOBase (snd kv))) (AList.delete k body) =
          filter (\<lambda>kv. \<not> (fst kv \<in> set (k # ks) \<and> is_IOBase (snd kv))) body"
      unfolding AList.delete_eq filter_filter
      by (rule filter_cong) (use True uniq in \<open>auto simp: case_prod_beta\<close>)
    with Cons.IH [OF d dk s, of "AList.update k v files"] v True show ?thesis by simp
  next
    case False
    from Cons.prems(2) have dk: "distinct ks" by simp
    from Cons.prems(3) have s: "set ks \<subseteq> fst ` set body" by simp
    have "filter (\<lambda>kv. \<not> (fst kv \<in> set ks \<and> is_IOBase (snd kv))) body =
          filter (\<lambda>kv. \<not> (fst kv \<in> set (k # ks) \<and> is_IOBase (snd kv))) body"
      by (rule filter_cong) (use False uniq in auto)
    with Cons.IH [OF Cons.prems(1) dk s, of files] v False show ?thesis by simp
  qed
qed

lemma pop_files_all:
  assumes "distinct (map fst body)"
  shows "fst (pop_files (map fst body) body []) = Inr () \<and>
         fst (snd (pop_files (map fst body) body [])) =
           filter (\<lambda>kv. \<not> is_IOBase (snd kv)) body"
proof -
  have "filter (\<lambda>kv. \<not> (fst kv \<in> set (map fst body) \<and> is_IOBase (snd kv))) body =
        filter (\<lambda>kv. \<not> is_IOBase (snd kv)) body"
    by (rule filter_cong) auto
  with pop_files_body [OF assms assms, of "[]"] show ?thesis by simp
qed

lemma or_new_append:
  assumes "or_new x h = (a, h')"
  shows "\<exists>xs. h' = h @ xs"
  using assms by (auto simp: or_new_def new_dict_def split: option.splits if_splits)

lemma or_new_addr:
  assumes "or_new x h = (a, h')"
  shows "(case x of
            None \<Rightarrow> a = length h
          | Some b \<Rightarrow> if h ! b = [] then a = length h else a = b)"
  using assms by (auto simp: or_new_def new_dict_def split: option.splits if_splits)

text \<open>
  Claim C10, amended. Of the mappings that exist before the call,
  \<^verbatim>\<open>_prepare_request\<close> changes at most one. With a body and \<^verbatim>\<open>form_data\<close>
  it removes every stream from the caller's body mapping and leaves the plain fields. With a
  JSON body it sets \<^verbatim>\<open>Content-Type\<close> in the caller's headers mapping when that
  mapping is not empty; an empty or absent headers mapping is left as it is, the header goes
  into a new mapping. Without a body nothing changes.
\<close>

theorem prepare_request_frame:
  assumes vb: "valid_ref h body" and vh: "valid_ref h headers"
  shows "take (length h)
           (snd (RemoteBase_prepare_request_heap base path method query_params body cookies
                   headers form_data h)) =
         (case body of
            None \<Rightarrow> h
          | Some b \<Rightarrow>
              if form_data then h[b := filter (\<lambda>kv. \<not> is_IOBase (snd kv)) (h ! b)]
              else
                (case headers of
                   None \<Rightarrow> h
                 | Some a \<Rightarrow>
                     if h ! a = [] then h
                     else h[a := AList.update ''Content-Type''
                                   (Plain (JStr ''application/json'')) (h ! a)]))"
proof -
  obtain c h1 where c: "or_new cookies h = (c, h1)" by (cases "or_new cookies h")
  obtain hs h2 where hs: "or_new headers h1 = (hs, h2)" by (cases "or_new headers h1")
  from or_new_append [OF c] obtain xs where h1: "h1 = h @ xs" by blast
  from or_new_append [OF hs] h1 obtain ys where h2: "h2 = h @ ys" by auto
  have old: "h2 ! a = h ! a" if "a < length h" for a
    using that by (simp add: h2 nth_append)
  have t2: "take (length h) h2 = h" by (simp add: h2)
  show ?thesis
  proof (cases body)
    case None
    with c hs t2 show ?thesis by (simp add: RemoteBase_prepare_request_heap_def)
  next
    case (Some b)
    with vb have b: "b < length h" and db: "distinct (map fst (h ! b))"
      by (simp_all add: valid_ref_def)
    show ?thesis
    proof (cases form_data)
      case True
      obtain res b' files where p: "pop_files (map fst (h ! b)) (h ! b) [] = (res, b', files)"
        by (cases "pop_files (map fst (h ! b)) (h ! b) []")
      with pop_files_all [OF db] have r: "res = Inr ()"
        and b': "b' = filter (\<lambda>kv. \<not> is_IOBase (snd kv)) (h ! b)" by simp_all
      have "take (length h) (h2[b := b'] @ [files]) = h[b := b']"
        using t2 by (simp add: h2 take_update_swap)
      with Some True c hs p r b' old [OF b] show ?thesis
        by (simp add: RemoteBase_prepare_request_heap_def)
    next
      case False
      let ?ct = "AList.update ''Content-Type'' (Plain (JStr ''application/json''))"
      have snd_eq: "snd (RemoteBase_prepare_request_heap base path method query_params body cookies
                   headers form_data h) = h2[hs := ?ct (h2 ! hs)]"
        using Some False c hs
        by (simp add: RemoteBase_prepare_request_heap_def Let_def split: sum.splits)
      have t3: "take (length h) (h2[hs := ?ct (h2 ! hs)]) = h[hs := ?ct (h2 ! hs)]"
        using t2 by (simp add: take_update_swap)
      show ?thesis
      proof (cases headers)
        case None
        with or_new_addr [OF hs] have "hs = length h1" by simp
        with h1 have "length h \<le> hs" by simp
        then have "h[hs := ?ct (h2 ! hs)] = h" by (rule list_update_beyond)
        with snd_eq t3 Some False None show ?thesis by simp
      next
        case (Some a)
        with vh have a: "a < length h" by (simp add: valid_ref_def)
        then have a1: "h1 ! a = h ! a" by (simp add: h1 nth_append)
        show ?thesis
        proof (cases "h ! a = []")
          case True
          with or_new_addr [OF hs] Some a1 have "hs = length h1" by simp
          with h1 have "length h \<le> hs" by simp
          then have "h[hs := ?ct (h2 ! hs)] = h" by (rule list_update_beyond)
          with snd_eq t3 \<open>body = Some b\<close> False Some True show ?thesis by simp
        next
          case nonempty: False
          with or_new_addr [OF hs] Some a1 have "hs = a" by simp
          with snd_eq t3 \<open>body = Some b\<close> False Some nonempty old [OF a] show ?thesis by simp
        qed
      qed
    qed
  qed
qed

text \<open>A store with three mappings: headers, a form body with a stream, a JSON body.\<close>

theorem prepare_request_frame_witness:
  "valid_ref [[(''Accept'', Plain (JStr ''*/*''))],
              [(''file'', Stream ''bytes''), (''name'', Plain (JStr ''p1''))],
              [(''name'', Plain (JStr ''p1''))]] (Some 1) \<and>
   valid_ref [[(''Accept'', Plain (JStr ''*/*''))],
              [(''file'', Stream ''bytes''), (''name'', Plain (JStr ''p1''))],
              [(''name'', Plain (JStr ''p1''))]] (Some 0) \<and>
   take 3 (snd (RemoteBase_prepare_request_heap ''http://svc:8000'' ''/api/upload'' ''POST'' None
                  (Some 1) None (Some 0) True
                  [[(''Accept'', Plain (JStr ''*/*''))],
                   [(''file'', Stream ''bytes''), (''name'', Plain (JStr ''p1''))],
                   [(''name'', Plain (JStr ''p1''))]])) =
     [[(''Accept'', Plain (JStr ''*/*''))],
      [(''name'', Plain (JStr ''p1''))],
      [(''name'', Plain (JStr ''p1''))]] \<and>
   take 3 (snd (RemoteBase_prepare_request_heap ''http://svc:8000'' ''/api/projects'' ''POST'' None
                  (Some 2) None (Some 0) False
                  [[(''Accept'', Plain (JStr ''*/*''))],
                   [(''file'', Stream ''bytes''), (''name'', Plain (JStr ''p1''))],
                   [(''name'', Plain (JStr ''p1''))]])) =
     [[(''Accept'', Plain (JStr ''*/*'')),
       (''Content-Type'', Plain (JStr ''application/json''))],
      [(''file'', Stream ''bytes''), (''name'', Plain (JStr ''p1''))],
      [(''name'', Plain (JStr ''p1''))]]"
proof -
  let ?h = "[[(''Accept'', Plain (JStr ''*/*''))],
             [(''file'', Stream ''bytes''), (''name'', Plain (JStr ''p1''))],
             [(''name'', Plain (JStr ''p1''))]]"
  have v0: "valid_ref ?h (Some 0)" and v1: "valid_ref ?h (Some 1)" and v2: "valid_ref ?h (Some 2)"
    by (simp_all add: valid_ref_def)
  from prepare_request_frame [OF v1 v0, of "''http://svc:8000''" "''/api/upload''" "''POST''"
      None None True]
    prepare_request_frame [OF v2 v0, of "''http://svc:8000''" "''/api/projects''" "''POST''"
      None None False] v0 v1
  show ?thesis by (simp add: eval_nat_numeral)
qed

text \<open>The caller's headers mapping is empty: it stays empty, and the header is in a new
  mapping.\<close>

theorem headers_untouched_counterexample:
  "snd (RemoteBase_prepare_request_heap ''http://svc:8000'' ''/api/projects'' ''POST'' None
          (Some 1) None (Some 0) False [[], [(''name'', Plain (JStr ''p1''))]]) =
     [[], [(''name'', Plain (JStr ''p1''))], [],
      [(''Content-Type'', Plain (JStr ''application/json''))]] \<and>
   map_of (snd (RemoteBase_prepare_request_heap ''http://svc:8000'' ''/api/projects'' ''POST'' None
          (Some 1) None (Some 0) False [[], [(''name'', Plain (JStr ''p1''))]]) ! 0)
     ''Content-Type'' = None"
  by (simp add: RemoteBase_prepare_request_heap_def or_new_def new_dict_def json_dumps_def
      json_encode_def)

text \<open>
  The two models of \<^verbatim>\<open>_prepare_request\<close> agree: when the arguments are distinct
  mappings, the request built on the store holds the values of the request built on values, and
  both fail together.
\<close>

lemma prepare_request_heap_agrees:
  assumes v: "valid_ref h query_params" "valid_ref h body" "valid_ref h cookies" "valid_ref h headers"
    and d: "distinct (arg_refs [query_params, body, cookies, headers])"
  shows "case RemoteBase_prepare_request base path method (deref h query_params) (deref h body)
                (deref h cookies) (deref h headers) form_data of
           Inl e \<Rightarrow>
             fst (RemoteBase_prepare_request_heap base path method query_params body cookies
                    headers form_data h) = Inl e
         | Inr r \<Rightarrow>
             (\<exists>ro h'. RemoteBase_prepare_request_heap base path method query_params body cookies
                         headers form_data h = (Inr ro, h') \<and>
                       deref_request h' ro = r)"
proof -
  obtain c h1 where c: "or_new cookies h = (c, h1)" by (cases "or_new cookies h")
  obtain hs h2 where hs: "or_new headers h1 = (hs, h2)" by (cases "or_new headers h1")
  have l1: "h1 = h \<or> h1 = h @ [[]]"
    using c by (auto simp: or_new_def new_dict_def split: option.splits if_splits)
  have l2: "h2 = h1 \<or> h2 = h1 @ [[]]"
    using hs by (auto simp: or_new_def new_dict_def split: option.splits if_splits)
  have old1: "h1 ! a = h ! a" if "a < length h" for a
    using l1 that by (auto simp: nth_append)
  have old2: "h2 ! a = h ! a" if "a < length h" for a
    using l1 l2 that by (auto simp: nth_append)
  have len: "length h \<le> length h1" "length h1 \<le> length h2"
    using l1 l2 by auto
  have cv: "h2 ! c = or_empty (deref h cookies)" "c < length h1"
    and cc: "c < length h \<longrightarrow> cookies = Some c \<and> h ! c \<noteq> []"
    using c v(3) l2
    by (auto simp: or_new_def new_dict_def or_empty_def deref_def valid_ref_def nth_append
        split: option.splits if_splits)
  have hv: "h2 ! hs = or_empty (deref h headers)" "hs < length h2"
    and hh: "hs < length h1 \<longrightarrow> headers = Some hs \<and> hs < length h \<and> h ! hs \<noteq> []"
    using hs v(4) old1 len
    by (auto simp: or_new_def new_dict_def or_empty_def deref_def valid_ref_def nth_append
        split: option.splits if_splits)
  have qv: "map_option (\<lambda>a. h2 ! a) query_params = deref h query_params"
    using v(1) old2 by (cases query_params) (auto simp: deref_def valid_ref_def)
  show ?thesis
  proof (cases body)
    case None
    have "deref h None = None" by (simp add: deref_def)
    with None c hs cv hv qv show ?thesis
      by (simp add: RemoteBase_prepare_request_def RemoteBase_prepare_request_heap_def
          deref_request_def Let_def)
  next
    case (Some b)
    with v(2) have b: "b < length h" by (simp add: valid_ref_def)
    from Some d have bq: "query_params \<noteq> Some b" and bc: "cookies \<noteq> Some b"
      and bh: "headers \<noteq> Some b"
      by (cases query_params; cases cookies; cases headers; auto)+
    from bc cc b have cb: "c \<noteq> b" by auto
    from bh hh b len have hb: "hs \<noteq> b" by auto
    show ?thesis
    proof (cases form_data)
      case True
      obtain res b' files where p: "pop_files (map fst (h ! b)) (h ! b) [] = (res, b', files)"
        by (cases "pop_files (map fst (h ! b)) (h ! b) []")
      let ?h' = "h2[b := b'] @ [files]"
      have q': "map_option (\<lambda>a. ?h' ! a) query_params = deref h query_params"
        using v(1) bq len old2
        by (cases query_params) (auto simp: deref_def valid_ref_def nth_append)
      have rc: "?h' ! c = or_empty (deref h cookies)"
        using cv cb len by (simp add: nth_append)
      have rh: "?h' ! hs = or_empty (deref h headers)"
        using hv hb by (simp add: nth_append)
      have rb: "?h' ! b = b'" using b len by (simp add: nth_append)
      have rf: "?h' ! length h2 = files" by (simp add: nth_append)
      have db: "deref h (Some b) = Some (h ! b)" by (simp add: deref_def)
      from Some True c hs p old2 [OF b] q' rc rh rb rf db show ?thesis
        by (cases res)
           (simp_all add: RemoteBase_prepare_request_def RemoteBase_prepare_request_heap_def
             deref_request_def Let_def)
    next
      case False
      let ?ct = "AList.update ''Content-Type'' (Plain (JStr ''application/json''))"
      let ?h3 = "h2[hs := ?ct (h2 ! hs)]"
      have hc: "hs \<noteq> c"
      proof (cases "hs < length h1")
        case True
        with hh have 1: "headers = Some hs" "hs < length h" by simp_all
        show ?thesis
        proof (cases "c < length h")
          case True
          with cc have "cookies = Some c" by simp
          with 1 d show ?thesis by (cases query_params) (auto simp: Some)
        next
          case False
          with 1 show ?thesis by simp
        qed
      next
        case False
        with cv(2) show ?thesis by simp
      qed
      have hq: "query_params \<noteq> Some hs"
        using d hh v(1) len
        by (cases query_params; cases cookies; cases headers; auto simp: Some valid_ref_def)
      have q': "map_option (\<lambda>a. ?h3 ! a) query_params = deref h query_params"
        using v(1) hq old2
        by (cases query_params) (auto simp: deref_def valid_ref_def)
      have rc: "?h3 ! c = or_empty (deref h cookies)"
        using cv hc by simp
      have rh: "?h3 ! hs = ?ct (or_empty (deref h headers))"
        using hv by simp
      have rb: "?h3 ! b = h ! b" using hb old2 [OF b] by simp
      have db: "deref h (Some b) = Some (h ! b)" by (simp add: deref_def)
      from Some False c hs q' rc rh rb db show ?thesis
        by (cases "json_dumps (h ! b)")
           (simp_all add: RemoteBase_prepare_request_def RemoteBase_prepare_request_heap_def
             deref_request_def Let_def)
    qed
  qed
qed

end
